theory Spec2Isabelle
  imports Complex_Main
begin

section \<open>Numbers\<close>

text \<open>
  The dashboard computes with JavaScript numbers and the Python pipeline with NumPy
  float64 values: both are IEEE doubles. The model keeps every finite value exact, as a
  rational, and makes the special values explicit, so that a division by zero is a
  visible branch: it yields \<open>NaN\<close> for \<open>0 / 0\<close> and an infinity otherwise, as the
  double division does. Rounding of finite results to 53 bits and overflow of finite
  sums are left out, so on arbitrary data a printed last digit can differ from the
  code's; the theorems about printed values are stated for the data the dashboard
  generates, where no quotient lies near a rounding boundary.
\<close>

datatype num = Fin rat | NaN | PInf | NInf

definition fdiv :: "rat \<Rightarrow> rat \<Rightarrow> num" where
  "fdiv a b =
     (if b = 0 then (if a = 0 then NaN else if 0 < a then PInf else NInf)
      else Fin (a / b))"

definition ftimes :: "num \<Rightarrow> rat \<Rightarrow> num" where
  "ftimes x c =
     (case x of
        Fin r \<Rightarrow> Fin (r * c)
      | NaN \<Rightarrow> NaN
      | PInf \<Rightarrow> (if c = 0 then NaN else if 0 < c then PInf else NInf)
      | NInf \<Rightarrow> (if c = 0 then NaN else if 0 < c then NInf else PInf))"

subsection \<open>Number.prototype.toFixed\<close>

text \<open>
  \<open>x.toFixed(f)\<close> of ECMAScript: a value that is not finite prints as its name; a
  negative value prints a minus sign and then its absolute value; from \<open>10^21\<close> on the
  result is the exponent notation of the number, which is not spelled out here
  (\<open>Exponent\<close>); otherwise the integer \<open>n\<close> nearest to \<open>x * 10^f\<close> is taken (the larger
  one of two equally near), printed in decimal, padded with zeros to \<open>f + 1\<close> digits, and
  a point is put before the last \<open>f\<close> digits.
\<close>

datatype shown = Text string | Exponent rat

fun digits :: "nat \<Rightarrow> string" where
  "digits n =
     (if n < 10 then [''0123456789'' ! n]
      else digits (n div 10) @ [''0123456789'' ! (n mod 10)])"

declare digits.simps [simp del]

definition nearest :: "rat \<Rightarrow> nat" where
  "nearest x = nat \<lfloor>x + 1 / 2\<rfloor>"

definition fixed_digits :: "nat \<Rightarrow> nat \<Rightarrow> string" where
  "fixed_digits f n =
     (let m = digits n in
      if f = 0 then m
      else
        let m' = (if length m \<le> f then replicate (f + 1 - length m) (CHR ''0'') @ m else m);
            k = length m'
        in take (k - f) m' @ ''.'' @ drop (k - f) m')"

definition toFixed :: "nat \<Rightarrow> num \<Rightarrow> shown" where
  "toFixed f x =
     (case x of
        NaN \<Rightarrow> Text ''NaN''
      | PInf \<Rightarrow> Text ''Infinity''
      | NInf \<Rightarrow> Text ''-Infinity''
      | Fin r \<Rightarrow>
          if 10 ^ 21 \<le> \<bar>r\<bar> then Exponent r
          else Text ((if r < 0 then ''-'' else []) @ fixed_digits f (nearest (\<bar>r\<bar> * 10 ^ f))))"

section \<open>The dashboard: BearCartDashboard.tsx\<close>

subsection \<open>Generated data\<close>

text \<open>
  The rows of the generators that the KPI block and the funnel cards read. Field names
  carry a prefix because several of the source's object types share \<open>name\<close>,
  \<open>revenue\<close>, \<open>value\<close> and \<open>color\<close>. Colours are the constants of BearCartTheme.tsx.
\<close>

record channel_row =
  ch_name :: string
  ch_revenue :: rat
  ch_orders :: rat
  ch_conversion :: rat
  ch_color :: string

record funnel_row =
  fu_stage :: string
  fu_value :: rat
  fu_color :: string

record category_row =
  cat_category :: string
  cat_revenue :: rat
  cat_trend :: rat
  cat_refundRate :: rat

record refund_row =
  rf_reason :: string
  rf_count :: rat
  rf_percentage :: rat
  rf_color :: string

record opportunity_row =
  opp_step :: string
  opp_dropoff :: rat
  opp_impact :: string

definition generateChannelData :: "channel_row list" where
  "generateChannelData =
     [\<lparr>ch_name = ''Organic'', ch_revenue = 28450, ch_orders = 342, ch_conversion = 42 / 10, ch_color = ''#8b5cf6''\<rparr>,
      \<lparr>ch_name = ''Paid Ads'', ch_revenue = 18920, ch_orders = 156, ch_conversion = 21 / 10, ch_color = ''#ec4899''\<rparr>,
      \<lparr>ch_name = ''Social'', ch_revenue = 12340, ch_orders = 98, ch_conversion = 18 / 10, ch_color = ''#f59e0b''\<rparr>,
      \<lparr>ch_name = ''Direct'', ch_revenue = 8920, ch_orders = 67, ch_conversion = 12 / 10, ch_color = ''#14b8a6''\<rparr>,
      \<lparr>ch_name = ''Referral'', ch_revenue = 5670, ch_orders = 42, ch_conversion = 9 / 10, ch_color = ''#3b82f6''\<rparr>]"

definition generateFunnelData :: "funnel_row list" where
  "generateFunnelData =
     [\<lparr>fu_stage = ''Sessions'', fu_value = 45000, fu_color = ''#7c3aed''\<rparr>,
      \<lparr>fu_stage = ''Product View'', fu_value = 32400, fu_color = ''#4f46e5''\<rparr>,
      \<lparr>fu_stage = ''Add to Cart'', fu_value = 8100, fu_color = ''#3b82f6''\<rparr>,
      \<lparr>fu_stage = ''Checkout'', fu_value = 2430, fu_color = ''#f59e0b''\<rparr>,
      \<lparr>fu_stage = ''Purchase'', fu_value = 1215, fu_color = ''#10b981''\<rparr>]"

definition generateCategoryPerformance :: "category_row list" where
  "generateCategoryPerformance =
     [\<lparr>cat_category = ''Electronics'', cat_revenue = 34500, cat_trend = 12, cat_refundRate = 62 / 10\<rparr>,
      \<lparr>cat_category = ''Apparel'', cat_revenue = 28900, cat_trend = 8, cat_refundRate = 35 / 10\<rparr>,
      \<lparr>cat_category = ''Furniture'', cat_revenue = 18450, cat_trend = - 2, cat_refundRate = 21 / 10\<rparr>,
      \<lparr>cat_category = ''Accessories'', cat_revenue = 21240, cat_trend = 15, cat_refundRate = 18 / 10\<rparr>,
      \<lparr>cat_category = ''Home Goods'', cat_revenue = 15600, cat_trend = 5, cat_refundRate = 28 / 10\<rparr>]"

definition generateRefundData :: "refund_row list" where
  "generateRefundData =
     [\<lparr>rf_reason = ''Damaged'', rf_count = 45, rf_percentage = 28, rf_color = ''#ef4444''\<rparr>,
      \<lparr>rf_reason = ''Wrong Size'', rf_count = 38, rf_percentage = 24, rf_color = ''#f59e0b''\<rparr>,
      \<lparr>rf_reason = ''Not as Described'', rf_count = 32, rf_percentage = 20, rf_color = ''#06b6d4''\<rparr>,
      \<lparr>rf_reason = ''Changed Mind'', rf_count = 26, rf_percentage = 16, rf_color = ''#06b6d4''\<rparr>,
      \<lparr>rf_reason = ''Defective'', rf_count = 18, rf_percentage = 12, rf_color = ''#ef4444''\<rparr>]"

text \<open>The array literal of the "Optimization Opportunities" card of the Funnel tab.\<close>

definition opportunities :: "opportunity_row list" where
  "opportunities =
     [\<lparr>opp_step = ''Product Page'', opp_dropoff = 286 / 10, opp_impact = ''High''\<rparr>,
      \<lparr>opp_step = ''Add to Cart'', opp_dropoff = 741 / 10, opp_impact = ''Critical''\<rparr>,
      \<lparr>opp_step = ''Checkout'', opp_dropoff = 50, opp_impact = ''High''\<rparr>]"

subsection \<open>The component body\<close>

text \<open>
  The React state of the component and the values its body computes on every render
  (the block "Calculate KPIs" and "Filter data based on selections"). The generators
  are memoised with an empty dependency list, so every render of one mounted component
  sees the same arrays; the two randomised arrays (\<open>revenueData\<close>, \<open>timeSeriesData\<close>)
  and \<open>productData\<close>, \<open>deviceData\<close> are read by charts only and are not part of the
  record. \<open>reduce\<close> is a left fold. A \<open>string | null\<close> state is a \<open>string option\<close>;
  in a condition \<open>null\<close> and the empty string are falsy.
\<close>

record dashboard_state =
  activeTab :: string
  mobileOpen :: bool
  timeRange :: string
  selectedChannel :: "string option"
  selectedCategory :: "string option"

record dashboard_values =
  totalRevenue :: rat
  totalOrders :: rat
  avgConversion :: shown
  totalSessions :: rat
  conversionRate :: shown
  avgOrderValue :: shown
  totalRefunds :: rat
  refundRate :: shown
  filteredChannelData :: "channel_row list"
  filteredCategoryData :: "category_row list"

definition truthy :: "string option \<Rightarrow> bool" where
  "truthy s = (case s of None \<Rightarrow> False | Some t \<Rightarrow> t \<noteq> [])"

definition BearCartDashboard :: "dashboard_state \<Rightarrow> dashboard_values" where
  "BearCartDashboard st =
     (let channelData = generateChannelData;
          funnelData = generateFunnelData;
          categoryPerformance = generateCategoryPerformance;
          refundData = generateRefundData;
          total_revenue = foldl (\<lambda>sum item. sum + ch_revenue item) 0 channelData;
          total_orders = foldl (\<lambda>sum item. sum + ch_orders item) 0 channelData;
          avg_conversion =
            toFixed 1 (fdiv (foldl (\<lambda>sum item. sum + ch_conversion item) 0 channelData)
                            (of_nat (length channelData)));
          total_sessions = fu_value (funnelData ! 0);
          conversion_rate =
            toFixed 2 (ftimes (fdiv (fu_value (funnelData ! (length funnelData - 1))) total_sessions) 100);
          avg_order_value = toFixed 2 (fdiv total_revenue total_orders);
          total_refunds = foldl (\<lambda>sum item. sum + rf_count item) 0 refundData;
          refund_rate = toFixed 1 (ftimes (fdiv total_refunds total_orders) 100)
      in \<lparr>totalRevenue = total_revenue,
          totalOrders = total_orders,
          avgConversion = avg_conversion,
          totalSessions = total_sessions,
          conversionRate = conversion_rate,
          avgOrderValue = avg_order_value,
          totalRefunds = total_refunds,
          refundRate = refund_rate,
          filteredChannelData =
            (if truthy (selectedChannel st)
             then filter (\<lambda>item. Some (ch_name item) = selectedChannel st) channelData
             else channelData),
          filteredCategoryData =
            (if truthy (selectedCategory st)
             then filter (\<lambda>item. Some (cat_category item) = selectedCategory st) categoryPerformance
             else categoryPerformance)\<rparr>)"

subsection \<open>The funnel cards\<close>

text \<open>
  The two \<open>funnelData.map((stage, idx) => ...)\<close> callbacks: the "Conversion Funnel"
  card of the Overview tab, whose drop-off is \<open>null\<close> for the first stage, and the
  "Stage Analysis" card of the Funnel tab, whose first stage is compared with itself
  (the card shows the drop-off from the second stage on).
  Inside the callback \<open>idx\<close> is a valid index, so \<open>funnelData[0]\<close> and
  \<open>funnelData[idx - 1]\<close> (for \<open>idx > 0\<close>) exist.
\<close>

definition conversion_funnel :: "funnel_row list \<Rightarrow> (shown \<times> shown option) list" where
  "conversion_funnel funnelData =
     map (\<lambda>(idx, stage).
            (toFixed 1 (ftimes (fdiv (fu_value stage) (fu_value (funnelData ! 0))) 100),
             if 0 < idx
             then Some (toFixed 1 (ftimes
                    (fdiv (fu_value (funnelData ! (idx - 1)) - fu_value stage)
                          (fu_value (funnelData ! (idx - 1)))) 100))
             else None))
         (enumerate 0 funnelData)"

definition stage_analysis :: "funnel_row list \<Rightarrow> (shown \<times> shown) list" where
  "stage_analysis funnelData =
     map (\<lambda>(idx, stage).
            let prevValue = (if 0 < idx then fu_value (funnelData ! (idx - 1)) else fu_value stage);
                dropoff = toFixed 1 (ftimes (fdiv (prevValue - fu_value stage) prevValue) 100);
                percentage = toFixed 1 (ftimes (fdiv (fu_value stage) (fu_value (funnelData ! 0))) 100)
            in (dropoff, percentage))
         (enumerate 0 funnelData)"

text \<open>Stage values that never go up from one stage to the next.\<close>

fun non_increasing :: "rat list \<Rightarrow> bool" where
  "non_increasing (x # y # zs) = (y \<le> x \<and> non_increasing (y # zs))"
| "non_increasing _ = True"

text \<open>
  What the Overview tab prints for each refund reason: the row's own \<open>count\<close> and
  \<open>percentage\<close> fields, as they stand in the data (\<open>{item.count}\<close>,
  \<open>{item.percentage}%\<close>). The Funnel tab prints \<open>{opp.dropoff}%\<close> for each row of
  \<open>opportunities\<close> in the same way.
\<close>

definition refund_breakdown :: "refund_row list \<Rightarrow> (string \<times> rat \<times> rat) list" where
  "refund_breakdown refundData = map (\<lambda>item. (rf_reason item, rf_count item, rf_percentage item)) refundData"

definition opportunity_dropoffs :: "opportunity_row list \<Rightarrow> (string \<times> rat) list" where
  "opportunity_dropoffs opps = map (\<lambda>opp. (opp_step opp, opp_dropoff opp)) opps"

subsection \<open>Reading a printed decimal back\<close>

text \<open>The number that a string of decimal digits denotes; used to state what \<open>toFixed\<close> prints.\<close>

definition digit_of :: "char \<Rightarrow> nat" where
  "digit_of c = of_char c - 48"

definition read_nat :: "string \<Rightarrow> nat" where
  "read_nat s = foldl (\<lambda>a c. 10 * a + digit_of c) 0 s"

section \<open>The API service: ApiService.getDashboardData\<close>

text \<open>
  The values the service handles. A thrown value is a \<open>js_error\<close> (a failed
  \<open>fetch\<close> rejects with a \<open>TypeError\<close>); the message of an
  \<open>Error\<close> built from a value that is not a string is the value's string conversion,
  kept symbolic (\<open>ToString\<close>). A response carries its \<open>ok\<close> flag, its status and the
  outcome of reading its body: \<open>response.text()\<close> resolves with the text or rejects
  (the connection can fail while the body is read). \<open>JSON.parse\<close> belongs to the
  runtime and is a parameter of the model: it returns the parsed value or throws a
  \<open>SyntaxError\<close>. \<open>response.json()\<close> reads the body and parses it.
\<close>

datatype json =
    JNull
  | JBool bool
  | JNumber rat
  | JString string
  | JArray "json list"
  | JObject "(string \<times> json) list"

datatype message = Str string | ToString json

datatype js_error = Error message | TypeError string | SyntaxError string

record response =
  ok :: bool
  status :: nat
  body_text :: "js_error + string"

datatype fetch_result = Rejects js_error | Resolves response

text \<open>
  The world outside: what \<open>fetch\<close> answers for a URL, and the parser. The effects of a
  call are recorded in an \<open>io\<close> state: the URLs requested and the lines written with
  \<open>console.error\<close>, both in order.
\<close>

record world =
  fetch :: "string \<Rightarrow> fetch_result"
  JSON_parse :: "string \<Rightarrow> js_error + json"

record io =
  requests :: "string list"
  console_error :: "(string \<times> js_error) list"

definition BASE_URL :: string where
  "BASE_URL = ''https://bearcart.onrender.com''"

text \<open>
  \<open>json.detail\<close>: reading a property of \<open>null\<close> throws a \<open>TypeError\<close>; an object
  yields the member or \<open>undefined\<close> (\<open>None\<close>); any other value has no such property.
  A parsed object lists each member name once.
\<close>

definition detail_of :: "json \<Rightarrow> js_error + json option" where
  "detail_of j =
     (case j of
        JNull \<Rightarrow> Inl (TypeError ''Cannot read properties of null'')
      | JObject members \<Rightarrow> Inr (map_of members ''detail'')
      | _ \<Rightarrow> Inr None)"

definition js_truthy :: "json option \<Rightarrow> bool" where
  "js_truthy v =
     (case v of
        None \<Rightarrow> False
      | Some JNull \<Rightarrow> False
      | Some (JBool b) \<Rightarrow> b
      | Some (JNumber n) \<Rightarrow> n \<noteq> 0
      | Some (JString s) \<Rightarrow> s \<noteq> []
      | Some _ \<Rightarrow> True)"

definition message_of :: "json \<Rightarrow> message" where
  "message_of v = (case v of JString s \<Rightarrow> Str s | _ \<Rightarrow> ToString v)"

definition http_error :: "nat \<Rightarrow> js_error" where
  "http_error st = Error (Str (''HTTP error! status: '' @ digits st))"

text \<open>
  The inner \<open>try\<close> block of the branch for a response that is not ok. Every path
  through it throws: \<open>JSON.parse\<close> fails, or \<open>json.detail\<close> fails, or the
  \<open>throw new Error(json.detail || ...)\<close> is reached. \<open>inner_try\<close> is the value
  thrown inside the block; \<open>inner_catch\<close> is the handler \<open>catch (e)\<close>, which
  throws a new error and does not read \<open>e\<close>.
\<close>

definition inner_try :: "world \<Rightarrow> response \<Rightarrow> string \<Rightarrow> js_error" where
  "inner_try w resp txt =
     (case JSON_parse w txt of
        Inl e \<Rightarrow> e
      | Inr j \<Rightarrow>
          (case detail_of j of
             Inl e \<Rightarrow> e
           | Inr d \<Rightarrow>
               if js_truthy d then Error (message_of (the d)) else http_error (status resp)))"

definition inner_catch :: "response \<Rightarrow> js_error \<Rightarrow> js_error" where
  "inner_catch resp e = http_error (status resp)"

definition response_json :: "world \<Rightarrow> response \<Rightarrow> js_error + json" where
  "response_json w resp =
     (case body_text resp of Inl e \<Rightarrow> Inl e | Inr txt \<Rightarrow> JSON_parse w txt)"

text \<open>
  The body of the outer \<open>try\<close>: one \<open>fetch\<close>, recorded in the state, then the branch on
  \<open>response.ok\<close>. \<open>Inl\<close> is a value thrown out of the block.
\<close>

definition try_body :: "world \<Rightarrow> string \<Rightarrow> io \<Rightarrow> (js_error + json) \<times> io" where
  "try_body w baseURL s =
     (let url = baseURL @ ''/api/dashboard'';
          s1 = s\<lparr>requests := requests s @ [url]\<rparr>
      in case fetch w url of
           Rejects e \<Rightarrow> (Inl e, s1)
         | Resolves resp \<Rightarrow>
             if \<not> ok resp then
               (case body_text resp of
                  Inl e \<Rightarrow> (Inl e, s1)
                | Inr txt \<Rightarrow> (Inl (inner_catch resp (inner_try w resp txt)), s1))
             else (response_json w resp, s1))"

definition getDashboardData :: "world \<Rightarrow> io \<Rightarrow> (js_error + json) \<times> io" where
  "getDashboardData w s =
     (case try_body w BASE_URL s of
        (Inl error, s1) \<Rightarrow>
          (Inl error,
           s1\<lparr>console_error := console_error s1 @ [(''Failed to fetch dashboard data:'', error)]\<rparr>)
      | (Inr data, s1) \<Rightarrow> (Inr data, s1))"

text \<open>
  The URL the service asks for, the line it logs, and the state after a failed call: one
  more request and one more logged error.
\<close>

definition dashboard_url :: string where
  "dashboard_url = BASE_URL @ ''/api/dashboard''"

definition failure_line :: string where
  "failure_line = ''Failed to fetch dashboard data:''"

definition after_failure :: "io \<Rightarrow> js_error \<Rightarrow> io" where
  "after_failure s e =
     s\<lparr>requests := requests s @ [dashboard_url],
       console_error := console_error s @ [(failure_line, e)]\<rparr>"

section \<open>The Python pipeline: BearCart_Code_Templates.md\<close>

subsection \<open>Python and NumPy values\<close>

text \<open>
  A number in the metrics code is a Python \<open>int\<close> or \<open>float\<close> (what \<open>len\<close> and
  literals give) or a NumPy scalar (what the reductions \<open>sum\<close>, \<open>mean\<close> of a pandas
  column give: \<open>int64\<close> for an integer or boolean column, \<open>float64\<close> for a float
  column). The operator \<open>/\<close> depends on that: between two Python numbers a zero divisor
  raises \<open>ZeroDivisionError\<close>; as soon as one operand is a NumPy scalar the division is
  NumPy's, which gives \<open>nan\<close> or an infinity (with a warning) and does not raise.
\<close>

datatype py_error = ZeroDivisionError | ValueError | IndexingError

datatype pyval = PyInt int | PyFloat num | NpInt int | NpFloat num

fun as_num :: "pyval \<Rightarrow> num" where
  "as_num (PyInt i) = Fin (of_int i)"
| "as_num (PyFloat x) = x"
| "as_num (NpInt i) = Fin (of_int i)"
| "as_num (NpFloat x) = x"

fun is_numpy :: "pyval \<Rightarrow> bool" where
  "is_numpy (PyInt i) = False"
| "is_numpy (PyFloat x) = False"
| "is_numpy (NpInt i) = True"
| "is_numpy (NpFloat x) = True"

definition num_div :: "num \<Rightarrow> num \<Rightarrow> num" where
  "num_div x y =
     (case x of
        NaN \<Rightarrow> NaN
      | Fin a \<Rightarrow> (case y of NaN \<Rightarrow> NaN | Fin b \<Rightarrow> fdiv a b | PInf \<Rightarrow> Fin 0 | NInf \<Rightarrow> Fin 0)
      | PInf \<Rightarrow> (case y of Fin b \<Rightarrow> (if 0 \<le> b then PInf else NInf) | NaN \<Rightarrow> NaN | PInf \<Rightarrow> NaN | NInf \<Rightarrow> NaN)
      | NInf \<Rightarrow> (case y of Fin b \<Rightarrow> (if 0 \<le> b then NInf else PInf) | NaN \<Rightarrow> NaN | PInf \<Rightarrow> NaN | NInf \<Rightarrow> NaN))"

definition truediv :: "pyval \<Rightarrow> pyval \<Rightarrow> py_error + pyval" where
  "truediv a b =
     (if is_numpy a \<or> is_numpy b then Inr (NpFloat (num_div (as_num a) (as_num b)))
      else if as_num b = Fin 0 then Inl ZeroDivisionError
      else Inr (PyFloat (num_div (as_num a) (as_num b))))"

text \<open>\<open>x > 0\<close>: false for \<open>nan\<close>.\<close>

definition gt_zero :: "pyval \<Rightarrow> bool" where
  "gt_zero v = (case as_num v of Fin r \<Rightarrow> 0 < r | PInf \<Rightarrow> True | NaN \<Rightarrow> False | NInf \<Rightarrow> False)"

subsection \<open>Columns\<close>

text \<open>
  A cell of a typed column is \<open>None\<close> when it is missing (\<open>NaN\<close>, \<open>NaT\<close>). The
  reductions skip missing cells: \<open>sum\<close> of nothing is \<open>0\<close>, \<open>mean\<close> of nothing is
  \<open>nan\<close>. \<open>value_counts\<close> and \<open>groupby\<close> leave out the rows whose key is missing
  (\<open>dropna=True\<close> is the default of both). A dict is a list of pairs with distinct
  keys; its order carries no meaning.
\<close>

fun dropna :: "'a option list \<Rightarrow> 'a list" where
  "dropna [] = []"
| "dropna (None # xs) = dropna xs"
| "dropna (Some v # xs) = v # dropna xs"

definition series_sum :: "rat option list \<Rightarrow> rat" where
  "series_sum xs = sum_list (dropna xs)"

definition series_mean :: "rat option list \<Rightarrow> num" where
  "series_mean xs =
     (let ys = dropna xs in if ys = [] then NaN else Fin (sum_list ys / of_nat (length ys)))"

definition nunique :: "'a option list \<Rightarrow> nat" where
  "nunique xs = length (remdups (dropna xs))"

definition value_counts :: "'a option list \<Rightarrow> ('a \<times> nat) list" where
  "value_counts xs = (let ys = dropna xs in map (\<lambda>k. (k, count_list ys k)) (remdups ys))"

definition groupby :: "('r \<Rightarrow> 'k option) \<Rightarrow> 'r list \<Rightarrow> ('k \<times> 'r list) list" where
  "groupby key rows =
     map (\<lambda>k. (k, filter (\<lambda>r. key r = Some k) rows)) (remdups (dropna (map key rows)))"

subsection \<open>Tables\<close>

text \<open>
  The columns the metrics read. A master table is the sessions table with the columns
  that \<open>create_master_dataset\<close> adds: \<open>orders_in_session\<close> (a float column, missing for
  a session without orders, after the left merge), \<open>converted\<close> (boolean),
  \<open>conversion_flag\<close> (\<open>converted.astype(int)\<close>, an \<open>int64\<close> column) and
  \<open>was_refunded\<close> (a float column).
\<close>

record session_row =
  session_id :: "string option"
  session_date :: "int option"
  user_id :: "string option"
  traffic_source :: "string option"
  device_type :: "string option"
  session_duration_clean :: "rat option"
  product_category :: "string option"
  is_returning_customer :: "rat option"

record master_row = session_row +
  orders_in_session :: "rat option"
  converted :: bool
  conversion_flag :: int
  was_refunded :: "rat option"

subsection \<open>BearCartMetrics\<close>

record traffic =
  total_sessions :: nat
  unique_users :: nat
  avg_session_duration :: num
  bounce_rate :: pyval
  sessions_by_channel :: "(string \<times> nat) list"
  sessions_by_device :: "(string \<times> nat) list"

definition traffic_metrics :: "'a session_row_scheme list \<Rightarrow> py_error + traffic" where
  "traffic_metrics df_sessions =
     (case truediv
             (NpInt (int (length (filter (\<lambda>r. case session_duration_clean r of
                                                 None \<Rightarrow> False | Some d \<Rightarrow> d < 5) df_sessions))))
             (PyInt (int (length df_sessions))) of
        Inl e \<Rightarrow> Inl e
      | Inr bounce \<Rightarrow>
          Inr \<lparr>total_sessions = length df_sessions,
               unique_users = nunique (map user_id df_sessions),
               avg_session_duration = series_mean (map session_duration_clean df_sessions),
               bounce_rate = bounce,
               sessions_by_channel = value_counts (map traffic_source df_sessions),
               sessions_by_device = value_counts (map device_type df_sessions)\<rparr>)"

record conversion =
  overall_conversion_rate :: pyval
  total_conversions :: int
  conversion_by_channel :: "(string \<times> int \<times> nat) list"
  conversion_by_device :: "(string \<times> int \<times> nat) list"
  avg_time_to_conversion :: num

text \<open>\<open>groupby(key)['conversion_flag'].agg(['sum', 'count'])\<close>: per key, the sum and the number of the flags.\<close>

definition sum_count :: "('a master_row_scheme \<Rightarrow> string option) \<Rightarrow> 'a master_row_scheme list
    \<Rightarrow> (string \<times> int \<times> nat) list" where
  "sum_count key df = map (\<lambda>(k, g). (k, sum_list (map conversion_flag g), length g)) (groupby key df)"

definition conversion_metrics :: "'a master_row_scheme list \<Rightarrow> py_error + conversion" where
  "conversion_metrics df_master =
     (let total_sessions = PyInt (int (length df_master));
          converted_sum = NpInt (sum_list (map conversion_flag df_master))
      in case truediv converted_sum total_sessions of
           Inl e \<Rightarrow> Inl e
         | Inr rate \<Rightarrow>
             Inr \<lparr>overall_conversion_rate = rate,
                  total_conversions = sum_list (map conversion_flag df_master),
                  conversion_by_channel = sum_count traffic_source df_master,
                  conversion_by_device = sum_count device_type df_master,
                  avg_time_to_conversion =
                    series_mean (map session_duration_clean (filter converted df_master))\<rparr>)"

record quality =
  overall_refund_rate :: pyval
  repeat_customer_rate :: pyval
  refund_rate_by_category :: "(string \<times> num) list"
  at_risk_segments :: "((string \<times> string) \<times> nat) list"

text \<open>The two sums at the head of \<open>quality_metrics\<close>, both of float columns.\<close>

definition total_orders_of :: "'a master_row_scheme list \<Rightarrow> rat" where
  "total_orders_of df_master = series_sum (map orders_in_session df_master)"

definition refunded_orders_of :: "'a master_row_scheme list \<Rightarrow> rat" where
  "refunded_orders_of df_master = series_sum (map was_refunded df_master)"

definition quality_metrics :: "'a master_row_scheme list \<Rightarrow> py_error + quality" where
  "quality_metrics df_master =
     (let total_orders = NpFloat (Fin (total_orders_of df_master));
          refunded_orders = NpFloat (Fin (refunded_orders_of df_master))
      in case (if gt_zero total_orders then truediv refunded_orders total_orders else Inr (PyInt 0)) of
           Inl e \<Rightarrow> Inl e
         | Inr refund_rate \<Rightarrow>
             (case truediv
                     (NpInt (int (length (filter (\<lambda>r. is_returning_customer r = Some 1) df_master))))
                     (PyInt (int (length df_master))) of
                Inl e \<Rightarrow> Inl e
              | Inr repeat_rate \<Rightarrow>
                  Inr \<lparr>overall_refund_rate = refund_rate,
                       repeat_customer_rate = repeat_rate,
                       refund_rate_by_category =
                         map (\<lambda>(k, g). (k, series_mean (map was_refunded g)))
                             (groupby product_category df_master),
                       at_risk_segments =
                         value_counts
                           (map (\<lambda>r. case (traffic_source r, device_type r) of
                                        (Some s, Some d) \<Rightarrow> Some (s, d) | _ \<Rightarrow> None)
                                (filter (\<lambda>r. was_refunded r = Some 1) df_master))\<rparr>))"

text \<open>Whether a rate is a number between 0 and 1.\<close>

definition in_unit_interval :: "pyval \<Rightarrow> bool" where
  "in_unit_interval v = (case as_num v of Fin r \<Rightarrow> 0 \<le> r \<and> r \<le> 1 | NaN \<Rightarrow> False | PInf \<Rightarrow> False | NInf \<Rightarrow> False)"

subsection \<open>BearCartDataCleaner\<close>

text \<open>
  A cell of a raw column, as \<open>read_csv\<close> delivers it, is missing, or holds text that
  the converter cannot read (\<open>Garbled\<close>), or denotes a value. \<open>pd.to_numeric\<close> and
  \<open>pd.to_datetime\<close> with \<open>errors='coerce'\<close> turn the first two into a missing cell;
  \<open>pd.to_datetime\<close> without it raises on a garbled cell. A timestamp is an integer
  number of nanoseconds.
\<close>

datatype 'a cell = Missing | Garbled | Val 'a

fun coerce :: "'a cell \<Rightarrow> 'a option" where
  "coerce Missing = None"
| "coerce Garbled = None"
| "coerce (Val v) = Some v"

definition to_datetime :: "int cell list \<Rightarrow> py_error + int option list" where
  "to_datetime col = (if Garbled \<in> set col then Inl ValueError else Inr (map coerce col))"

text \<open>Comparisons of two timestamp cells: false as soon as one of them is \<open>NaT\<close>.\<close>

definition date_lt :: "int option \<Rightarrow> int option \<Rightarrow> bool" where
  "date_lt a b = (case (a, b) of (Some x, Some y) \<Rightarrow> x < y | _ \<Rightarrow> False)"

definition date_ge :: "int option \<Rightarrow> int option \<Rightarrow> bool" where
  "date_ge a b = (case (a, b) of (Some x, Some y) \<Rightarrow> y \<le> x | _ \<Rightarrow> False)"

text \<open>
  \<open>left.merge(right, on=key, how='left')\<close>: for every row of the left table, in order,
  one row per row of the right table with the same key (missing keys match each other),
  or a single row with nothing from the right when there is none. The result has a
  fresh index \<open>0, 1, ...\<close>.
\<close>

definition merge_left :: "('l \<Rightarrow> 'k) \<Rightarrow> ('r \<Rightarrow> 'k) \<Rightarrow> 'l list \<Rightarrow> 'r list \<Rightarrow> ('l \<times> 'r option) list" where
  "merge_left lkey rkey left right =
     concat (map (\<lambda>l. case filter (\<lambda>r. rkey r = lkey l) right of
                        [] \<Rightarrow> [(l, None)]
                      | ms \<Rightarrow> map (\<lambda>r. (l, Some r)) ms) left)"

record order_raw =
  raw_order_id :: "string option"
  raw_order_session_id :: "string option"
  raw_order_date :: "int cell"
  raw_order_value :: "rat cell"

record order_row =
  order_id :: "string option"
  order_session_id :: "string option"
  order_date :: "int option"
  order_value :: "rat option"

record refund_raw =
  raw_refund_id :: "string option"
  raw_refund_order_id :: "string option"
  raw_refund_date :: "int cell"
  raw_reason :: "string option"

record refund_clean =
  refund_id :: "string option"
  refund_order_id :: "string option"
  refund_date :: "int option"
  reason :: "string option"
  refund_order_date :: "int option"
  days_to_refund :: "int option"

text \<open>The dictionary \<open>self.cleaning_report\<close>: a key is absent until a cleaner sets it.\<close>

record cleaning_report =
  sessions_removed :: "nat option"
  orders_removed :: "nat option"
  refunds_removed :: "nat option"

text \<open>
  \<open>clean_orders\<close>. The orders table comes from \<open>read_csv\<close>, so its rows are labelled
  \<open>0, 1, ...\<close>, and a row keeps its label when other rows are filtered out. The date
  mask is computed on the merged table, which is labelled afresh, and is then used to
  index the orders table: pandas looks the mask up by label and raises an
  \<open>IndexingError\<close> when a label of the orders table has no entry in the mask. The sessions
  table is the cleaned one, whose \<open>session_date\<close> is already a timestamp column, so
  converting it again changes nothing. The two feature columns added at the end
  (\<open>order_value_log\<close>, \<open>high_value_order\<close>) neither remove rows nor touch
  \<open>order_value\<close> and are not part of \<open>order_row\<close>.
\<close>

definition clean_orders ::
  "cleaning_report \<Rightarrow> order_raw list \<Rightarrow> 'a session_row_scheme list
     \<Rightarrow> py_error + (order_row list \<times> cleaning_report)" where
  "clean_orders self df_orders df_sessions =
     (let labelled = filter (\<lambda>(l, row). raw_order_id row \<noteq> None) (enumerate 0 df_orders);
          dated = map (\<lambda>(l, row). (l, row, coerce (raw_order_date row))) labelled;
          df_merged = merge_left (\<lambda>(l, row, d). raw_order_session_id row) session_id dated df_sessions;
          mask = map (\<lambda>((l, row, d), m). date_lt d (case m of None \<Rightarrow> None | Some s \<Rightarrow> session_date s))
                     df_merged;
          invalid_dates = length (filter (\<lambda>b. b) mask)
      in if list_ex (\<lambda>(l, row, d). length mask \<le> l) dated then Inl IndexingError
         else
           let kept = filter (\<lambda>(l, row, d). \<not> mask ! l) dated;
               valued = map (\<lambda>(l, row, d).
                                \<lparr>order_id = raw_order_id row,
                                 order_session_id = raw_order_session_id row,
                                 order_date = d,
                                 order_value = coerce (raw_order_value row)\<rparr>) kept;
               negative_orders =
                 length (filter (\<lambda>r. case order_value r of None \<Rightarrow> False | Some v \<Rightarrow> v < 0) valued);
               positive =
                 filter (\<lambda>r. case order_value r of None \<Rightarrow> False | Some v \<Rightarrow> 0 < v) valued
           in Inr (positive, self\<lparr>orders_removed := Some (invalid_dates + negative_orders)\<rparr>))"

text \<open>
  \<open>clean_refunds\<close>. The orders table is the cleaned one. The filter is computed on
  the merged table itself, so mask and table carry the same labels.
\<close>

definition ns_per_day :: int where
  "ns_per_day = 86400 * 10 ^ 9"

definition clean_refunds ::
  "cleaning_report \<Rightarrow> refund_raw list \<Rightarrow> 'a order_row_scheme list
     \<Rightarrow> py_error + (refund_clean list \<times> cleaning_report)" where
  "clean_refunds self df_refunds df_orders =
     (case to_datetime (map raw_refund_date df_refunds) of
        Inl e \<Rightarrow> Inl e
      | Inr dates \<Rightarrow>
          let dated = zip df_refunds dates;
              df_merged =
                map (\<lambda>((r, d), m).
                       \<lparr>refund_id = raw_refund_id r,
                        refund_order_id = raw_refund_order_id r,
                        refund_date = d,
                        reason = raw_reason r,
                        refund_order_date = (case m of None \<Rightarrow> None | Some ord \<Rightarrow> order_date ord),
                        days_to_refund = None\<rparr>)
                    (merge_left (\<lambda>(r, d). raw_refund_order_id r) order_id dated df_orders);
              invalid_refunds =
                length (filter (\<lambda>r. date_lt (refund_date r) (refund_order_date r)) df_merged);
              kept = filter (\<lambda>r. date_ge (refund_date r) (refund_order_date r)) df_merged;
              result =
                map (\<lambda>r. r\<lparr>days_to_refund :=
                              (case (refund_date r, refund_order_date r) of
                                 (Some x, Some y) \<Rightarrow> Some ((x - y) div ns_per_day)
                               | _ \<Rightarrow> None)\<rparr>) kept
          in Inr (result, self\<lparr>refunds_removed := Some invalid_refunds\<rparr>))"

subsection \<open>Example inputs\<close>

text \<open>The state the component starts in (the initial values of its \<open>useState\<close> calls), and small tables.\<close>

definition initial_state :: dashboard_state where
  "initial_state =
     \<lparr>activeTab = ''Overview'', mobileOpen = False, timeRange = ''Week'',
      selectedChannel = None, selectedCategory = None\<rparr>"

definition example_sessions :: "session_row list" where
  "example_sessions =
     [\<lparr>session_id = Some ''s1'', session_date = Some 100, user_id = Some ''u1'',
       traffic_source = Some ''Direct'', device_type = Some ''Desktop'',
       session_duration_clean = Some 30, product_category = Some ''Apparel'',
       is_returning_customer = Some 1\<rparr>,
      \<lparr>session_id = Some ''s2'', session_date = Some 200, user_id = Some ''u2'',
       traffic_source = Some ''Organic'', device_type = Some ''Mobile'',
       session_duration_clean = Some 3, product_category = Some ''Apparel'',
       is_returning_customer = Some 0\<rparr>,
      \<lparr>session_id = Some ''s3'', session_date = Some 300, user_id = Some ''u1'',
       traffic_source = Some ''Direct'', device_type = Some ''Mobile'',
       session_duration_clean = Some 60, product_category = Some ''Furniture'',
       is_returning_customer = Some 1\<rparr>]"

definition example_master :: "master_row list" where
  "example_master =
     [\<lparr>session_id = Some ''s1'', session_date = Some 100, user_id = Some ''u1'',
       traffic_source = Some ''Direct'', device_type = Some ''Desktop'',
       session_duration_clean = Some 30, product_category = Some ''Apparel'',
       is_returning_customer = Some 1,
       orders_in_session = Some 2, converted = True, conversion_flag = 1, was_refunded = Some 1\<rparr>,
      \<lparr>session_id = Some ''s2'', session_date = Some 200, user_id = Some ''u2'',
       traffic_source = Some ''Organic'', device_type = Some ''Mobile'',
       session_duration_clean = Some 3, product_category = Some ''Apparel'',
       is_returning_customer = Some 0,
       orders_in_session = None, converted = False, conversion_flag = 0, was_refunded = Some 0\<rparr>]"

definition example_master_no_orders :: "master_row list" where
  "example_master_no_orders =
     [\<lparr>session_id = Some ''s2'', session_date = Some 200, user_id = Some ''u2'',
       traffic_source = Some ''Organic'', device_type = Some ''Mobile'',
       session_duration_clean = Some 3, product_category = Some ''Apparel'',
       is_returning_customer = Some 0,
       orders_in_session = None, converted = False, conversion_flag = 0, was_refunded = Some 0\<rparr>]"

definition empty_report :: cleaning_report where
  "empty_report = \<lparr>sessions_removed = None, orders_removed = None, refunds_removed = None\<rparr>"

definition example_orders_raw :: "order_raw list" where
  "example_orders_raw =
     [\<lparr>raw_order_id = Some ''o1'', raw_order_session_id = Some ''s1'',
       raw_order_date = Val 150, raw_order_value = Val 50\<rparr>,
      \<lparr>raw_order_id = Some ''o2'', raw_order_session_id = Some ''s2'',
       raw_order_date = Val 250, raw_order_value = Val 0\<rparr>,
      \<lparr>raw_order_id = Some ''o3'', raw_order_session_id = Some ''s3'',
       raw_order_date = Val 350, raw_order_value = Garbled\<rparr>,
      \<lparr>raw_order_id = Some ''o4'', raw_order_session_id = Some ''s1'',
       raw_order_date = Val 160, raw_order_value = Val (- 5)\<rparr>,
      \<lparr>raw_order_id = Some ''o5'', raw_order_session_id = Some ''s3'',
       raw_order_date = Val 50, raw_order_value = Val 20\<rparr>]"

definition example_orders :: "order_row list" where
  "example_orders =
     [\<lparr>order_id = Some ''o1'', order_session_id = Some ''s1'', order_date = Some 150,
       order_value = Some 50\<rparr>,
      \<lparr>order_id = Some ''o6'', order_session_id = Some ''s2'', order_date = Some 400,
       order_value = Some 75\<rparr>]"

definition example_refunds_raw :: "refund_raw list" where
  "example_refunds_raw =
     [\<lparr>raw_refund_id = Some ''r1'', raw_refund_order_id = Some ''o1'',
       raw_refund_date = Val (150 + 2 * ns_per_day), raw_reason = Some ''Damaged''\<rparr>,
      \<lparr>raw_refund_id = Some ''r2'', raw_refund_order_id = Some ''o6'',
       raw_refund_date = Val 399, raw_reason = Some ''Wrong Size''\<rparr>,
      \<lparr>raw_refund_id = Some ''r3'', raw_refund_order_id = Some ''o9'',
       raw_refund_date = Val 500, raw_reason = None\<rparr>,
      \<lparr>raw_refund_id = Some ''r4'', raw_refund_order_id = Some ''o1'',
       raw_refund_date = Missing, raw_reason = Some ''Defective''\<rparr>]"

definition no_io :: io where
  "no_io = \<lparr>requests = [], console_error = []\<rparr>"

definition example_body :: string where
  "example_body =
     ''{'' @ [CHR 0x22] @ ''detail'' @ [CHR 0x22] @ '':'' @ [CHR 0x22] @ ''database unavailable''
       @ [CHR 0x22] @ ''}''"

definition example_parse :: "string \<Rightarrow> js_error + json" where
  "example_parse t =
     (if t = example_body then Inr (JObject [(''detail'', JString ''database unavailable'')])
      else Inl (SyntaxError ''Unexpected token''))"

definition world_down :: world where
  "world_down = \<lparr>fetch = (\<lambda>url. Rejects (TypeError ''Failed to fetch'')), JSON_parse = example_parse\<rparr>"

definition response_500 :: response where
  "response_500 = \<lparr>ok = False, status = 500, body_text = Inr example_body\<rparr>"

definition world_500 :: world where
  "world_500 = \<lparr>fetch = (\<lambda>url. Resolves response_500), JSON_parse = example_parse\<rparr>"

definition response_502 :: response where
  "response_502 = \<lparr>ok = False, status = 502, body_text = Inl (TypeError ''network error'')\<rparr>"

definition world_502 :: world where
  "world_502 = \<lparr>fetch = (\<lambda>url. Resolves response_502), JSON_parse = example_parse\<rparr>"

section \<open>Theorems\<close>

subsection \<open>What toFixed prints\<close>

lemma digit_of_nth: "d < 10 \<Longrightarrow> digit_of (''0123456789'' ! d) = d"
proof -
  assume "d < 10"
  then have "d \<in> {0, 1, 2, 3, 4, 5, 6, 7, 8, 9}" by auto
  then show ?thesis by (auto simp: digit_of_def)
qed

lemma read_nat_snoc: "read_nat (s @ [c]) = 10 * read_nat s + digit_of c"
  by (simp add: read_nat_def)

lemma read_nat_digits: "read_nat (digits n) = n"
proof (induction n rule: digits.induct)
  case (1 n)
  show ?case
  proof (cases "n < 10")
    case True
    then show ?thesis
      by (subst digits.simps) (simp add: read_nat_def digit_of_nth)
  next
    case False
    then have "read_nat (digits (n div 10)) = n div 10" using 1 by simp
    with False show ?thesis
      by (subst digits.simps) (simp add: read_nat_snoc digit_of_nth)
  qed
qed

lemma read_nat_zeros: "read_nat (replicate k (CHR ''0'') @ s) = read_nat s"
proof -
  have "foldl (\<lambda>a c. 10 * a + digit_of c) 0 (replicate k (CHR ''0'')) = 0"
    by (induction k) (simp_all add: digit_of_def)
  then show ?thesis by (simp add: read_nat_def)
qed

lemma digits_nonempty: "digits n \<noteq> []"
  by (subst digits.simps) simp

lemma fixed_digits_shape:
  assumes "0 < f"
  shows "\<exists>a b. fixed_digits f n = a @ ''.'' @ b \<and> a \<noteq> [] \<and> length b = f \<and> read_nat (a @ b) = n"
proof -
  define m where "m = digits n"
  define m' where "m' = (if length m \<le> f then replicate (f + 1 - length m) (CHR ''0'') @ m else m)"
  define k where "k = length m'"
  have fd: "fixed_digits f n = take (k - f) m' @ ''.'' @ drop (k - f) m'"
    using assms by (simp add: fixed_digits_def Let_def m_def m'_def k_def)
  have kf: "f < k"
    by (auto simp: k_def m'_def)
  have rd: "read_nat m' = n"
    by (simp add: m'_def m_def read_nat_zeros read_nat_digits)
  have "take (k - f) m' \<noteq> []" using kf by (auto simp: k_def)
  moreover have "length (drop (k - f) m') = f" using kf by (simp add: k_def)
  moreover have "read_nat (take (k - f) m' @ drop (k - f) m') = n" using rd by simp
  ultimately show ?thesis using fd by blast
qed

lemma nearest_close: "0 \<le> y \<Longrightarrow> \<bar>of_nat (nearest y) - y\<bar> \<le> 1 / 2"
proof -
  assume y: "0 \<le> y"
  have nn: "0 \<le> \<lfloor>y + 1 / 2\<rfloor>" using y by simp
  have "of_int \<lfloor>y + 1 / 2\<rfloor> \<le> y + 1 / 2" by (rule of_int_floor_le)
  moreover have "y + 1 / 2 < of_int \<lfloor>y + 1 / 2\<rfloor> + 1" by linarith
  moreover have "(of_nat (nearest y) :: rat) = of_int \<lfloor>y + 1 / 2\<rfloor>"
    using nn by (simp add: nearest_def)
  ultimately show ?thesis by linarith
qed

lemma toFixed_rounds:
  assumes "0 < f" "0 \<le> r" "r < 10 ^ 21"
  shows "\<exists>a b. toFixed f (Fin r) = Text (a @ ''.'' @ b) \<and> a \<noteq> [] \<and> length b = f
           \<and> \<bar>of_nat (read_nat (a @ b)) / 10 ^ f - r\<bar> \<le> 1 / (2 * 10 ^ f)"
proof -
  let ?n = "nearest (\<bar>r\<bar> * 10 ^ f)"
  obtain a b where ab: "fixed_digits f ?n = a @ ''.'' @ b" "a \<noteq> []" "length b = f" "read_nat (a @ b) = ?n"
    using fixed_digits_shape [OF assms(1)] by blast
  have tf: "toFixed f (Fin r) = Text (a @ ''.'' @ b)"
    using assms ab by (simp add: toFixed_def)
  have "\<bar>of_nat ?n - r * 10 ^ f\<bar> \<le> 1 / 2"
    using nearest_close [of "r * 10 ^ f"] assms by simp
  then have "\<bar>of_nat ?n - r * 10 ^ f\<bar> / 10 ^ f \<le> (1 / 2) / 10 ^ f"
    by (rule divide_right_mono) simp
  moreover have "\<bar>of_nat ?n - r * 10 ^ f\<bar> / 10 ^ f = \<bar>of_nat ?n / 10 ^ f - r\<bar>"
  proof -
    have "of_nat ?n / 10 ^ f - r = (of_nat ?n - r * 10 ^ f) / 10 ^ f"
      by (simp add: diff_divide_distrib)
    then have "\<bar>of_nat ?n / 10 ^ f - r\<bar> = \<bar>(of_nat ?n - r * 10 ^ f) / 10 ^ f\<bar>"
      by simp
    also have "\<dots> = \<bar>of_nat ?n - r * 10 ^ f\<bar> / 10 ^ f"
      by (simp only: abs_divide) simp
    finally show ?thesis by simp
  qed
  ultimately have "\<bar>of_nat ?n / 10 ^ f - r\<bar> \<le> 1 / (2 * 10 ^ f)" by simp
  with tf ab show ?thesis by metis
qed

subsection \<open>The dashboard\<close>

lemma conversionRate_eq:
  "conversionRate (BearCartDashboard st) = toFixed 2 (ftimes (fdiv 1215 45000) 100)"
  by (simp add: BearCartDashboard_def Let_def generateFunnelData_def)

lemma totalRefunds_eq: "totalRefunds (BearCartDashboard st) = 159"
  by (simp add: BearCartDashboard_def Let_def generateRefundData_def)

lemma totalOrders_eq: "totalOrders (BearCartDashboard st) = 705"
  by (simp add: BearCartDashboard_def Let_def generateChannelData_def)

lemma refundRate_eq:
  "refundRate (BearCartDashboard st) =
     toFixed 1 (ftimes (fdiv (totalRefunds (BearCartDashboard st)) (totalOrders (BearCartDashboard st))) 100)"
  by (simp add: BearCartDashboard_def Let_def)

lemma conversionRate_text: "toFixed 2 (ftimes (fdiv 1215 45000) 100) = Text ''2.70''"
  by code_simp

lemma refundRate_text: "toFixed 1 (ftimes (fdiv 159 705) 100) = Text ''22.6''"
  by code_simp

lemma stage_analysis_values:
  "stage_analysis generateFunnelData =
     [(Text ''0.0'', Text ''100.0''), (Text ''28.0'', Text ''72.0''), (Text ''75.0'', Text ''18.0''),
      (Text ''70.0'', Text ''5.4''), (Text ''50.0'', Text ''2.7'')]"
  by code_simp

lemma conversion_funnel_values:
  "conversion_funnel generateFunnelData =
     [(Text ''100.0'', None), (Text ''72.0'', Some (Text ''28.0'')), (Text ''18.0'', Some (Text ''75.0'')),
      (Text ''5.4'', Some (Text ''70.0'')), (Text ''2.7'', Some (Text ''50.0''))]"
  by code_simp

lemma filter_selects_channel:
  "map ch_name (filteredChannelData (BearCartDashboard (st\<lparr>selectedChannel := Some ''Organic''\<rparr>))) = [''Organic'']
   \<and> map ch_name (filteredChannelData (BearCartDashboard (st\<lparr>selectedChannel := None\<rparr>))) =
       [''Organic'', ''Paid Ads'', ''Social'', ''Direct'', ''Referral'']"
  by (simp add: BearCartDashboard_def Let_def truthy_def generateChannelData_def)

text \<open>
  C4. The funnel produced by \<open>generateFunnelData\<close> has the stages Sessions, Product
  View, Add to Cart, Checkout, Purchase in this order, and along it every stage's value
  is at most the value of the stage before it.
\<close>

theorem funnel_non_increasing:
  "map fu_stage generateFunnelData =
     [''Sessions'', ''Product View'', ''Add to Cart'', ''Checkout'', ''Purchase'']
   \<and> non_increasing (map fu_value generateFunnelData)"
  by (simp add: generateFunnelData_def)

lemma conversion_funnel_computed:
  "conversion_funnel generateFunnelData =
     [(toFixed 1 (ftimes (fdiv 45000 45000) 100), None),
      (toFixed 1 (ftimes (fdiv 32400 45000) 100), Some (toFixed 1 (ftimes (fdiv (45000 - 32400) 45000) 100))),
      (toFixed 1 (ftimes (fdiv 8100 45000) 100), Some (toFixed 1 (ftimes (fdiv (32400 - 8100) 32400) 100))),
      (toFixed 1 (ftimes (fdiv 2430 45000) 100), Some (toFixed 1 (ftimes (fdiv (8100 - 2430) 8100) 100))),
      (toFixed 1 (ftimes (fdiv 1215 45000) 100), Some (toFixed 1 (ftimes (fdiv (2430 - 1215) 2430) 100)))]"
  by code_simp

lemma stage_analysis_computed:
  "stage_analysis generateFunnelData =
     [(toFixed 1 (ftimes (fdiv (45000 - 45000) 45000) 100), toFixed 1 (ftimes (fdiv 45000 45000) 100)),
      (toFixed 1 (ftimes (fdiv (45000 - 32400) 45000) 100), toFixed 1 (ftimes (fdiv 32400 45000) 100)),
      (toFixed 1 (ftimes (fdiv (32400 - 8100) 32400) 100), toFixed 1 (ftimes (fdiv 8100 45000) 100)),
      (toFixed 1 (ftimes (fdiv (8100 - 2430) 8100) 100), toFixed 1 (ftimes (fdiv 2430 45000) 100)),
      (toFixed 1 (ftimes (fdiv (2430 - 1215) 2430) 100), toFixed 1 (ftimes (fdiv 1215 45000) 100))]"
  by code_simp

lemma conversionRate_value: "conversionRate (BearCartDashboard st) = Text ''2.70''"
  by (simp only: conversionRate_eq conversionRate_text)

lemma refundRate_value: "refundRate (BearCartDashboard st) = Text ''22.6''"
  by (simp only: refundRate_eq totalRefunds_eq totalOrders_eq refundRate_text)

text \<open>
  C6, as amended. The percentages that the dashboard computes from its data are the
  ratio times 100, rounded by \<open>toFixed\<close>: \<open>conversionRate\<close> is \<open>toFixed(2)\<close> of
  purchases over sessions times 100 and prints 2.70; \<open>refundRate\<close> is \<open>toFixed(1)\<close> of
  \<open>totalRefunds\<close> over \<open>totalOrders\<close> times 100 and prints 22.6; for each of the five
  stages of the generated funnel, the "Conversion Funnel" card and the "Stage Analysis"
  card print \<open>toFixed(1)\<close> of the stage's value over the first stage's value times 100
  (100.0, 72.0, 18.0, 5.4, 2.7) and \<open>toFixed(1)\<close> of the drop from the previous stage
  over the previous stage's value times 100 (28.0, 75.0, 70.0, 50.0; the first stage has
  none in the one card and 0.0, compared with itself, in the other). What \<open>toFixed(d)\<close>
  prints for a value \<open>r\<close> with \<open>0 \<le> r < 10^21\<close> and \<open>d > 0\<close> is a decimal numeral
  with exactly \<open>d\<close> digits after the point whose value differs from \<open>r\<close> by at most
  half a unit of the last digit.
\<close>

theorem computed_percentages_rounded:
  "conversionRate (BearCartDashboard st) = toFixed 2 (ftimes (fdiv 1215 45000) 100)
   \<and> conversionRate (BearCartDashboard st) = Text ''2.70''
   \<and> refundRate (BearCartDashboard st) =
       toFixed 1 (ftimes (fdiv (totalRefunds (BearCartDashboard st)) (totalOrders (BearCartDashboard st))) 100)
   \<and> refundRate (BearCartDashboard st) = Text ''22.6''
   \<and> conversion_funnel generateFunnelData =
       [(toFixed 1 (ftimes (fdiv 45000 45000) 100), None),
        (toFixed 1 (ftimes (fdiv 32400 45000) 100), Some (toFixed 1 (ftimes (fdiv (45000 - 32400) 45000) 100))),
        (toFixed 1 (ftimes (fdiv 8100 45000) 100), Some (toFixed 1 (ftimes (fdiv (32400 - 8100) 32400) 100))),
        (toFixed 1 (ftimes (fdiv 2430 45000) 100), Some (toFixed 1 (ftimes (fdiv (8100 - 2430) 8100) 100))),
        (toFixed 1 (ftimes (fdiv 1215 45000) 100), Some (toFixed 1 (ftimes (fdiv (2430 - 1215) 2430) 100)))]
   \<and> conversion_funnel generateFunnelData =
       [(Text ''100.0'', None), (Text ''72.0'', Some (Text ''28.0'')), (Text ''18.0'', Some (Text ''75.0'')),
        (Text ''5.4'', Some (Text ''70.0'')), (Text ''2.7'', Some (Text ''50.0''))]
   \<and> stage_analysis generateFunnelData =
       [(toFixed 1 (ftimes (fdiv (45000 - 45000) 45000) 100), toFixed 1 (ftimes (fdiv 45000 45000) 100)),
        (toFixed 1 (ftimes (fdiv (45000 - 32400) 45000) 100), toFixed 1 (ftimes (fdiv 32400 45000) 100)),
        (toFixed 1 (ftimes (fdiv (32400 - 8100) 32400) 100), toFixed 1 (ftimes (fdiv 8100 45000) 100)),
        (toFixed 1 (ftimes (fdiv (8100 - 2430) 8100) 100), toFixed 1 (ftimes (fdiv 2430 45000) 100)),
        (toFixed 1 (ftimes (fdiv (2430 - 1215) 2430) 100), toFixed 1 (ftimes (fdiv 1215 45000) 100))]
   \<and> stage_analysis generateFunnelData =
       [(Text ''0.0'', Text ''100.0''), (Text ''28.0'', Text ''72.0''), (Text ''75.0'', Text ''18.0''),
        (Text ''70.0'', Text ''5.4''), (Text ''50.0'', Text ''2.7'')]
   \<and> (0 < d \<and> 0 \<le> r \<and> r < 10 ^ 21 \<longrightarrow>
        (\<exists>a b. toFixed d (Fin r) = Text (a @ ''.'' @ b) \<and> a \<noteq> [] \<and> length b = d
               \<and> \<bar>of_nat (read_nat (a @ b)) / 10 ^ d - r\<bar> \<le> 1 / (2 * 10 ^ d)))"
proof -
  have rounds: "0 < d \<and> 0 \<le> r \<and> r < 10 ^ 21 \<longrightarrow>
        (\<exists>a b. toFixed d (Fin r) = Text (a @ ''.'' @ b) \<and> a \<noteq> [] \<and> length b = d
               \<and> \<bar>of_nat (read_nat (a @ b)) / 10 ^ d - r\<bar> \<le> 1 / (2 * 10 ^ d))"
    using toFixed_rounds by blast
  show ?thesis
    by (intro conjI conversionRate_eq conversionRate_value refundRate_eq refundRate_value
          conversion_funnel_computed conversion_funnel_values stage_analysis_computed
          stage_analysis_values rounds)
qed

text \<open>
  The statement at the value 72, the share of the second stage (Product View): what
  \<open>toFixed(1)\<close> prints for it has one digit after the point and denotes 72 to within
  a twentieth, and the card prints 72.0 for that stage with a drop of 28.0.
\<close>

theorem computed_percentages_rounded_witness:
  "(\<exists>a b. toFixed 1 (Fin 72) = Text (a @ ''.'' @ b) \<and> a \<noteq> [] \<and> length b = 1
          \<and> \<bar>of_nat (read_nat (a @ b)) / 10 ^ 1 - 72\<bar> \<le> (1::rat) / (2 * 10 ^ 1))
   \<and> conversion_funnel generateFunnelData ! 1 = (Text ''72.0'', Some (Text ''28.0''))
   \<and> stage_analysis generateFunnelData ! 1 = (Text ''28.0'', Text ''72.0'')
   \<and> conversionRate (BearCartDashboard initial_state) = Text ''2.70''
   \<and> refundRate (BearCartDashboard initial_state) = Text ''22.6''"
proof -
  have rng: "(0::nat) < 1 \<and> (0::rat) \<le> 72 \<and> (72::rat) < 10 ^ 21"
    by simp
  note inst = computed_percentages_rounded [of initial_state 1 72]
  from inst rng have c1: "\<exists>a b. toFixed 1 (Fin 72) = Text (a @ ''.'' @ b) \<and> a \<noteq> [] \<and> length b = 1
          \<and> \<bar>of_nat (read_nat (a @ b)) / 10 ^ 1 - 72\<bar> \<le> (1::rat) / (2 * 10 ^ 1)"
    by blast
  from inst have cf: "conversion_funnel generateFunnelData =
       [(Text ''100.0'', None), (Text ''72.0'', Some (Text ''28.0'')), (Text ''18.0'', Some (Text ''75.0'')),
        (Text ''5.4'', Some (Text ''70.0'')), (Text ''2.7'', Some (Text ''50.0''))]"
    by blast
  from inst have sa: "stage_analysis generateFunnelData =
       [(Text ''0.0'', Text ''100.0''), (Text ''28.0'', Text ''72.0''), (Text ''75.0'', Text ''18.0''),
        (Text ''70.0'', Text ''5.4''), (Text ''50.0'', Text ''2.7'')]"
    by blast
  have c2: "conversion_funnel generateFunnelData ! 1 = (Text ''72.0'', Some (Text ''28.0''))"
    by (simp add: cf)
  have c3: "stage_analysis generateFunnelData ! 1 = (Text ''28.0'', Text ''72.0'')"
    by (simp add: sa)
  from inst have c4: "conversionRate (BearCartDashboard initial_state) = Text ''2.70''"
    by blast
  from inst have c5: "refundRate (BearCartDashboard initial_state) = Text ''22.6''"
    by blast
  from c1 c2 c3 c4 c5 show ?thesis by blast
qed

text \<open>
  Not every percentage on the dashboard is computed. The refund breakdown prints the
  literal \<open>percentage\<close> field of each reason: for "Defective" it prints 12, while its
  count 18 over the 159 refunds, times 100, is 11.32..., which no \<open>toFixed\<close> turns
  into 12. The "Optimization Opportunities" card prints the literal drop-off 28.6 for
  the product page, a value that is not among the drop-offs computed from the funnel.
\<close>

theorem literal_percentages_counterexample:
  "(''Defective'', 18, 12) \<in> set (refund_breakdown generateRefundData)
   \<and> toFixed 0 (ftimes (fdiv 18 159) 100) = Text ''11''
   \<and> toFixed 1 (ftimes (fdiv 18 159) 100) = Text ''11.3''
   \<and> toFixed 2 (ftimes (fdiv 18 159) 100) = Text ''11.32''
   \<and> \<not> \<bar>12 - 18 / 159 * 100\<bar> \<le> (1 / 2 :: rat)
   \<and> (''Product Page'', 286 / 10) \<in> set (opportunity_dropoffs opportunities)
   \<and> map fst (stage_analysis generateFunnelData) =
        [Text ''0.0'', Text ''28.0'', Text ''75.0'', Text ''70.0'', Text ''50.0'']"
proof -
  have "(''Defective'', 18, 12) \<in> set (refund_breakdown generateRefundData)"
    by (simp add: refund_breakdown_def generateRefundData_def)
  moreover have "toFixed 0 (ftimes (fdiv 18 159) 100) = Text ''11''" by code_simp
  moreover have "toFixed 1 (ftimes (fdiv 18 159) 100) = Text ''11.3''" by code_simp
  moreover have "toFixed 2 (ftimes (fdiv 18 159) 100) = Text ''11.32''" by code_simp
  moreover have "\<not> \<bar>12 - 18 / 159 * 100\<bar> \<le> (1 / 2 :: rat)" by simp
  moreover have "(''Product Page'', 286 / 10) \<in> set (opportunity_dropoffs opportunities)"
    by (simp add: opportunity_dropoffs_def opportunities_def)
  moreover have "map fst (stage_analysis generateFunnelData) =
        [Text ''0.0'', Text ''28.0'', Text ''75.0'', Text ''70.0'', Text ''50.0'']"
    by (simp add: stage_analysis_values)
  ultimately show ?thesis by blast
qed

text \<open>
  C9. Setting or clearing the two filters changes nothing among the computed values but
  \<open>filteredChannelData\<close> and \<open>filteredCategoryData\<close>: the values computed after the
  selection are those computed before it with these two fields replaced, and each KPI
  (\<open>totalRevenue\<close>, \<open>totalOrders\<close>, \<open>avgConversion\<close>, \<open>conversionRate\<close>,
  \<open>avgOrderValue\<close>, \<open>totalRefunds\<close>, \<open>refundRate\<close>) is the same for every selection.
\<close>

theorem filters_change_only_filtered_data:
  "BearCartDashboard (st\<lparr>selectedChannel := c, selectedCategory := g\<rparr>) =
     (BearCartDashboard st)
       \<lparr>filteredChannelData :=
          filteredChannelData (BearCartDashboard (st\<lparr>selectedChannel := c, selectedCategory := g\<rparr>)),
        filteredCategoryData :=
          filteredCategoryData (BearCartDashboard (st\<lparr>selectedChannel := c, selectedCategory := g\<rparr>))\<rparr>
   \<and> totalRevenue (BearCartDashboard (st\<lparr>selectedChannel := c, selectedCategory := g\<rparr>)) =
       totalRevenue (BearCartDashboard st)
   \<and> totalOrders (BearCartDashboard (st\<lparr>selectedChannel := c, selectedCategory := g\<rparr>)) =
       totalOrders (BearCartDashboard st)
   \<and> avgConversion (BearCartDashboard (st\<lparr>selectedChannel := c, selectedCategory := g\<rparr>)) =
       avgConversion (BearCartDashboard st)
   \<and> conversionRate (BearCartDashboard (st\<lparr>selectedChannel := c, selectedCategory := g\<rparr>)) =
       conversionRate (BearCartDashboard st)
   \<and> avgOrderValue (BearCartDashboard (st\<lparr>selectedChannel := c, selectedCategory := g\<rparr>)) =
       avgOrderValue (BearCartDashboard st)
   \<and> totalRefunds (BearCartDashboard (st\<lparr>selectedChannel := c, selectedCategory := g\<rparr>)) =
       totalRefunds (BearCartDashboard st)
   \<and> refundRate (BearCartDashboard (st\<lparr>selectedChannel := c, selectedCategory := g\<rparr>)) =
       refundRate (BearCartDashboard st)"
  by (simp add: BearCartDashboard_def Let_def)

subsection \<open>The metrics\<close>

lemma truediv_count_len:
  "truediv (NpInt a) (PyInt b) = Inr (NpFloat (fdiv (of_int a) (of_int b)))"
  by (simp add: truediv_def num_div_def)

lemma length_dropna: "length (dropna xs) = length (filter (\<lambda>c. c \<noteq> None) xs)"
  by (induction xs rule: dropna.induct) simp_all

lemma sum_value_counts: "sum_list (map snd (value_counts xs)) = length (dropna xs)"
proof -
  define ys where "ys = dropna xs"
  have "sum_list (map snd (value_counts xs)) = sum_list (map (count_list ys) (remdups ys))"
    by (simp add: value_counts_def Let_def ys_def comp_def)
  also have "\<dots> = sum (count_list ys) (set (remdups ys))"
    by (rule sum_list_distinct_conv_sum_set) simp
  also have "\<dots> = length ys"
    by (simp add: sum_count_set)
  finally show ?thesis by (simp add: ys_def)
qed

lemma distinct_value_counts: "distinct (map fst (value_counts xs))"
  by (simp add: value_counts_def Let_def comp_def)

lemma traffic_metrics_returns:
  "traffic_metrics df =
     Inr \<lparr>total_sessions = length df,
          unique_users = nunique (map user_id df),
          avg_session_duration = series_mean (map session_duration_clean df),
          bounce_rate =
            NpFloat (fdiv (of_nat (length (filter (\<lambda>r. case session_duration_clean r of
                                                        None \<Rightarrow> False | Some d \<Rightarrow> d < 5) df)))
                          (of_nat (length df))),
          sessions_by_channel = value_counts (map traffic_source df),
          sessions_by_device = value_counts (map device_type df)\<rparr>"
  by (simp add: traffic_metrics_def truediv_count_len)

lemma refund_counts_sum: "sum_list (map rf_count generateRefundData) = 159"
  by (simp add: generateRefundData_def)

lemma dropna_empty_mean: "dropna xs = [] \<Longrightarrow> series_mean xs = NaN"
  by (simp add: series_mean_def)

lemma conversion_metrics_returns:
  "conversion_metrics df =
     Inr \<lparr>overall_conversion_rate =
            NpFloat (fdiv (of_int (sum_list (map conversion_flag df))) (of_nat (length df))),
          total_conversions = sum_list (map conversion_flag df),
          conversion_by_channel = sum_count traffic_source df,
          conversion_by_device = sum_count device_type df,
          avg_time_to_conversion = series_mean (map session_duration_clean (filter converted df))\<rparr>"
  by (simp add: conversion_metrics_def Let_def truediv_count_len)

lemma refund_rate_value:
  "(if gt_zero (NpFloat (Fin t)) then truediv (NpFloat (Fin r)) (NpFloat (Fin t)) else Inr (PyInt 0)) =
     Inr (if 0 < t then NpFloat (Fin (r / t)) else PyInt 0)"
  by (simp add: gt_zero_def truediv_def num_div_def fdiv_def)

lemma quality_metrics_returns:
  "quality_metrics df =
     Inr \<lparr>overall_refund_rate =
            (if 0 < total_orders_of df
             then NpFloat (Fin (refunded_orders_of df / total_orders_of df)) else PyInt 0),
          repeat_customer_rate =
            NpFloat (fdiv (of_nat (length (filter (\<lambda>r. is_returning_customer r = Some 1) df)))
                          (of_nat (length df))),
          refund_rate_by_category =
            map (\<lambda>(k, g). (k, series_mean (map was_refunded g))) (groupby product_category df),
          at_risk_segments =
            value_counts
              (map (\<lambda>r. case (traffic_source r, device_type r) of
                           (Some s, Some d) \<Rightarrow> Some (s, d) | _ \<Rightarrow> None)
                   (filter (\<lambda>r. was_refunded r = Some 1) df))\<rparr>"
  by (simp add: quality_metrics_def Let_def refund_rate_value truediv_count_len)

lemma channel_orders_sum: "sum_list (map ch_orders generateChannelData) = 705"
  by (simp add: generateChannelData_def)

lemma flags_sum_count:
  "\<forall>c \<in> set cs. c = Some 0 \<or> c = Some (1::rat) \<Longrightarrow>
     series_sum cs = of_nat (length (filter (\<lambda>c. c = Some 1) cs))"
  by (induction cs rule: dropna.induct) (auto simp: series_sum_def)

lemma refunded_sessions_count:
  assumes "\<forall>r \<in> set df. was_refunded r = Some 0 \<or> was_refunded r = Some 1"
  shows "refunded_orders_of df = of_nat (length (filter (\<lambda>r. was_refunded r = Some 1) df))"
proof -
  have "\<forall>c \<in> set (map was_refunded df). c = Some 0 \<or> c = Some 1"
    using assms by auto
  then have "series_sum (map was_refunded df) =
      of_nat (length (filter (\<lambda>c. c = Some 1) (map was_refunded df)))"
    by (rule flags_sum_count)
  then show ?thesis
    by (simp add: refunded_orders_of_def filter_map comp_def)
qed

lemma rate_in_unit_interval:
  assumes "0 \<le> r" "r \<le> t"
  shows "in_unit_interval (if 0 < t then NpFloat (Fin (r / t)) else PyInt 0)"
  using assms by (simp add: in_unit_interval_def)

text \<open>
  C5, as amended. \<open>traffic_metrics\<close> returns for every sessions table, and the counts of
  \<open>sessions_by_channel\<close> (of \<open>sessions_by_device\<close>) sum to the number of sessions whose
  \<open>traffic_source\<close> (\<open>device_type\<close>) is not missing; so they sum to
  \<open>total_sessions\<close> when no session misses that column. In the dashboard the counts of
  \<open>generateRefundData\<close> sum to \<open>totalRefunds\<close>.
\<close>

theorem group_counts_sum_to_present_rows:
  "(\<exists>t. traffic_metrics df = Inr t
        \<and> total_sessions t = length df
        \<and> sum_list (map snd (sessions_by_channel t)) = length (filter (\<lambda>r. traffic_source r \<noteq> None) df)
        \<and> sum_list (map snd (sessions_by_device t)) = length (filter (\<lambda>r. device_type r \<noteq> None) df)
        \<and> ((\<forall>r \<in> set df. traffic_source r \<noteq> None) \<longrightarrow>
              sum_list (map snd (sessions_by_channel t)) = total_sessions t)
        \<and> ((\<forall>r \<in> set df. device_type r \<noteq> None) \<longrightarrow>
              sum_list (map snd (sessions_by_device t)) = total_sessions t))
   \<and> sum_list (map rf_count generateRefundData) = totalRefunds (BearCartDashboard st)"
proof -
  have ch: "sum_list (map snd (value_counts (map traffic_source df))) =
        length (filter (\<lambda>r. traffic_source r \<noteq> None) df)"
    by (simp add: sum_value_counts length_dropna filter_map comp_def)
  have dv: "sum_list (map snd (value_counts (map device_type df))) =
        length (filter (\<lambda>r. device_type r \<noteq> None) df)"
    by (simp add: sum_value_counts length_dropna filter_map comp_def)
  have ch_all: "(\<forall>r \<in> set df. traffic_source r \<noteq> None) \<longrightarrow>
        length (filter (\<lambda>r. traffic_source r \<noteq> None) df) = length df"
    by simp
  have dv_all: "(\<forall>r \<in> set df. device_type r \<noteq> None) \<longrightarrow>
        length (filter (\<lambda>r. device_type r \<noteq> None) df) = length df"
    by simp
  show ?thesis
    using ch dv ch_all dv_all
    by (simp add: traffic_metrics_returns refund_counts_sum totalRefunds_eq)
qed

text \<open>A table of three sessions, none with a missing channel or device.\<close>

theorem group_counts_sum_to_present_rows_witness:
  "\<exists>t. traffic_metrics example_sessions = Inr t
       \<and> total_sessions t = 3
       \<and> sessions_by_channel t = [(''Organic'', 1), (''Direct'', 2)]
       \<and> sum_list (map snd (sessions_by_channel t)) = total_sessions t
       \<and> sum_list (map snd (sessions_by_device t)) = total_sessions t"
proof -
  have ch: "\<forall>r \<in> set example_sessions. traffic_source r \<noteq> None"
    by (simp add: example_sessions_def)
  have dv: "\<forall>r \<in> set example_sessions. device_type r \<noteq> None"
    by (simp add: example_sessions_def)
  from group_counts_sum_to_present_rows [of example_sessions initial_state] ch dv
  obtain t where t: "traffic_metrics example_sessions = Inr t"
      "total_sessions t = length example_sessions"
      "sum_list (map snd (sessions_by_channel t)) = total_sessions t"
      "sum_list (map snd (sessions_by_device t)) = total_sessions t"
    by blast
  have len: "length example_sessions = 3"
    by (simp add: example_sessions_def)
  have "sessions_by_channel t = [(''Organic'', 1), (''Direct'', 2)]"
    using t(1) by (auto simp: traffic_metrics_returns example_sessions_def value_counts_def Let_def)
  with t len show ?thesis
    by auto
qed

text \<open>
  One session whose \<open>device_type\<close> is missing: \<open>total_sessions\<close> is 1, and
  \<open>sessions_by_device\<close> is empty, so its counts sum to 0.
\<close>

theorem missing_device_counterexample:
  "\<exists>t. traffic_metrics
          [\<lparr>session_id = Some ''s1'', session_date = Some 0, user_id = Some ''u1'',
            traffic_source = Some ''Direct'', device_type = None, session_duration_clean = Some 30,
            product_category = Some ''Apparel'', is_returning_customer = Some 0\<rparr>] = Inr t
       \<and> total_sessions t = 1
       \<and> sessions_by_channel t = [(''Direct'', 1)]
       \<and> sessions_by_device t = []
       \<and> sum_list (map snd (sessions_by_device t)) \<noteq> total_sessions t"
  by (simp add: traffic_metrics_returns value_counts_def Let_def)

text \<open>
  C1. The three metric functions return a result for every table, they never raise. On a
  table whose orders sum to zero \<open>quality_metrics\<close> gives \<open>overall_refund_rate = 0\<close>;
  on a master table without sessions \<open>conversion_metrics\<close> gives
  \<open>overall_conversion_rate = nan\<close> (and \<open>repeat_customer_rate\<close>, \<open>bounce_rate\<close> are
  \<open>nan\<close> likewise); the mean of a column with no value present is \<open>nan\<close>.
\<close>

theorem empty_groups_give_sentinels:
  "(\<exists>t. traffic_metrics ds = Inr t)
   \<and> (\<exists>c. conversion_metrics df = Inr c)
   \<and> (\<exists>q. quality_metrics df = Inr q
          \<and> (total_orders_of df = 0 \<longrightarrow> overall_refund_rate q = PyInt 0)
          \<and> (df = [] \<longrightarrow> repeat_customer_rate q = NpFloat NaN))
   \<and> (df = [] \<longrightarrow>
         (\<exists>c. conversion_metrics df = Inr c \<and> overall_conversion_rate c = NpFloat NaN
               \<and> total_conversions c = 0 \<and> avg_time_to_conversion c = NaN))
   \<and> (ds = [] \<longrightarrow>
         (\<exists>t. traffic_metrics ds = Inr t \<and> bounce_rate t = NpFloat NaN \<and> avg_session_duration t = NaN))
   \<and> (dropna xs = [] \<longrightarrow> series_mean xs = NaN)"
  by (simp add: traffic_metrics_returns conversion_metrics_returns quality_metrics_returns
        dropna_empty_mean fdiv_def series_mean_def)

text \<open>
  A master table of one session without orders, the empty master table, the empty
  sessions table and a column of two missing cells.
\<close>

theorem empty_groups_give_sentinels_witness:
  "(\<exists>q. quality_metrics example_master_no_orders = Inr q
        \<and> total_orders_of example_master_no_orders = 0
        \<and> overall_refund_rate q = PyInt 0
        \<and> repeat_customer_rate q = NpFloat (Fin 0)
        \<and> refund_rate_by_category q = [(''Apparel'', Fin 0)])
   \<and> (\<exists>c. conversion_metrics ([] :: master_row list) = Inr c
        \<and> overall_conversion_rate c = NpFloat NaN \<and> avg_time_to_conversion c = NaN)
   \<and> (\<exists>t. traffic_metrics ([] :: session_row list) = Inr t
        \<and> bounce_rate t = NpFloat NaN \<and> avg_session_duration t = NaN)
   \<and> series_mean [None, None] = NaN"
proof -
  have z: "total_orders_of example_master_no_orders = 0"
    by (simp add: total_orders_of_def series_sum_def example_master_no_orders_def)
  have e: "dropna [None, None :: rat option] = []"
    by simp
  note a = empty_groups_give_sentinels
             [of "[] :: session_row list" example_master_no_orders "[None, None]"]
  note b = empty_groups_give_sentinels
             [of "[] :: session_row list" "[] :: master_row list" "[None, None]"]
  from a z obtain q where q: "quality_metrics example_master_no_orders = Inr q"
      "overall_refund_rate q = PyInt 0"
    by blast
  have q': "repeat_customer_rate q = NpFloat (Fin 0)" "refund_rate_by_category q = [(''Apparel'', Fin 0)]"
    using q(1)
    by (auto simp: quality_metrics_returns example_master_no_orders_def fdiv_def groupby_def
          series_mean_def)
  from b have c: "\<exists>c. conversion_metrics ([] :: master_row list) = Inr c
        \<and> overall_conversion_rate c = NpFloat NaN \<and> avg_time_to_conversion c = NaN"
    by blast
  from b have t: "\<exists>t. traffic_metrics ([] :: session_row list) = Inr t
        \<and> bounce_rate t = NpFloat NaN \<and> avg_session_duration t = NaN"
    by blast
  from b e have m: "series_mean [None, None] = NaN"
    by blast
  from q q' z c t m show ?thesis
    by blast
qed

text \<open>
  C3. In the dashboard \<open>refundRate\<close> is \<open>totalRefunds\<close> (the sum of the refund-reason
  counts) over \<open>totalOrders\<close> (the sum of the channels' orders) times 100, printed with
  one decimal; \<open>totalOrders\<close> is positive, so the division the code performs yields a
  finite number, and that number lies between 0 and 1. \<open>quality_metrics\<close> gives
  \<open>overall_refund_rate = refunded_orders / total_orders\<close> when \<open>total_orders > 0\<close>
  and 0 otherwise; when \<open>was_refunded\<close> is a 0/1 flag, \<open>refunded_orders\<close> is the number
  of refunded sessions, and if these do not exceed the orders the rate lies between 0
  and 1.
\<close>

theorem refund_rate_is_bounded_ratio:
  "refundRate (BearCartDashboard st) =
     toFixed 1 (ftimes (fdiv (totalRefunds (BearCartDashboard st)) (totalOrders (BearCartDashboard st))) 100)
   \<and> totalRefunds (BearCartDashboard st) = sum_list (map rf_count generateRefundData)
   \<and> totalOrders (BearCartDashboard st) = sum_list (map ch_orders generateChannelData)
   \<and> 0 < totalOrders (BearCartDashboard st)
   \<and> (\<exists>r. fdiv (totalRefunds (BearCartDashboard st)) (totalOrders (BearCartDashboard st)) = Fin r
          \<and> 0 \<le> r \<and> r \<le> 1)
   \<and> (\<exists>q. quality_metrics df = Inr q
          \<and> overall_refund_rate q =
              (if 0 < total_orders_of df
               then NpFloat (Fin (refunded_orders_of df / total_orders_of df)) else PyInt 0)
          \<and> ((\<forall>r \<in> set df. was_refunded r = Some 0 \<or> was_refunded r = Some 1)
               \<and> of_nat (length (filter (\<lambda>r. was_refunded r = Some 1) df)) \<le> total_orders_of df
               \<longrightarrow> refunded_orders_of df = of_nat (length (filter (\<lambda>r. was_refunded r = Some 1) df))
                   \<and> in_unit_interval (overall_refund_rate q)))"
proof -
  have dash: "totalRefunds (BearCartDashboard st) = sum_list (map rf_count generateRefundData)
      \<and> totalOrders (BearCartDashboard st) = sum_list (map ch_orders generateChannelData)
      \<and> 0 < totalOrders (BearCartDashboard st)"
    by (simp add: totalRefunds_eq totalOrders_eq refund_counts_sum channel_orders_sum)
  have quotient: "fdiv (totalRefunds (BearCartDashboard st)) (totalOrders (BearCartDashboard st)) =
      Fin (159 / 705)"
    by (simp add: totalRefunds_eq totalOrders_eq fdiv_def)
  have ratio: "\<exists>r. fdiv (totalRefunds (BearCartDashboard st)) (totalOrders (BearCartDashboard st)) = Fin r
      \<and> 0 \<le> r \<and> r \<le> 1"
    by (rule exI [of _ "159 / 705"]) (simp add: quotient)
  have bound: "(\<forall>r \<in> set df. was_refunded r = Some 0 \<or> was_refunded r = Some 1)
        \<and> of_nat (length (filter (\<lambda>r. was_refunded r = Some 1) df)) \<le> total_orders_of df
      \<longrightarrow> refunded_orders_of df = of_nat (length (filter (\<lambda>r. was_refunded r = Some 1) df))
          \<and> in_unit_interval (if 0 < total_orders_of df
               then NpFloat (Fin (refunded_orders_of df / total_orders_of df)) else PyInt 0)"
  proof (intro impI, elim conjE)
    assume flags: "\<forall>r \<in> set df. was_refunded r = Some 0 \<or> was_refunded r = Some 1"
      and le: "of_nat (length (filter (\<lambda>r. was_refunded r = Some 1) df)) \<le> total_orders_of df"
    have eq: "refunded_orders_of df = of_nat (length (filter (\<lambda>r. was_refunded r = Some 1) df))"
      using flags by (rule refunded_sessions_count)
    then have "0 \<le> refunded_orders_of df" "refunded_orders_of df \<le> total_orders_of df"
      using le by simp_all
    then have "in_unit_interval (if 0 < total_orders_of df
               then NpFloat (Fin (refunded_orders_of df / total_orders_of df)) else PyInt 0)"
      by (rule rate_in_unit_interval)
    with eq show "refunded_orders_of df = of_nat (length (filter (\<lambda>r. was_refunded r = Some 1) df))
          \<and> in_unit_interval (if 0 < total_orders_of df
               then NpFloat (Fin (refunded_orders_of df / total_orders_of df)) else PyInt 0)"
      by simp
  qed
  have qm: "\<exists>q. quality_metrics df = Inr q
          \<and> overall_refund_rate q =
              (if 0 < total_orders_of df
               then NpFloat (Fin (refunded_orders_of df / total_orders_of df)) else PyInt 0)
          \<and> ((\<forall>r \<in> set df. was_refunded r = Some 0 \<or> was_refunded r = Some 1)
               \<and> of_nat (length (filter (\<lambda>r. was_refunded r = Some 1) df)) \<le> total_orders_of df
               \<longrightarrow> refunded_orders_of df = of_nat (length (filter (\<lambda>r. was_refunded r = Some 1) df))
                   \<and> in_unit_interval (overall_refund_rate q))"
    using bound by (simp add: quality_metrics_returns)
  from dash ratio qm refundRate_eq [of st] show ?thesis
    by blast
qed

text \<open>Two sessions, one of them with two orders and a refund: the rate is one half.\<close>

theorem refund_rate_is_bounded_ratio_witness:
  "\<exists>q. quality_metrics example_master = Inr q
       \<and> total_orders_of example_master = 2
       \<and> refunded_orders_of example_master = 1
       \<and> overall_refund_rate q = NpFloat (Fin (1 / 2))
       \<and> in_unit_interval (overall_refund_rate q)"
proof -
  have flags: "\<forall>r \<in> set example_master. was_refunded r = Some 0 \<or> was_refunded r = Some 1"
    by (simp add: example_master_def)
  have tot: "total_orders_of example_master = 2"
    by (simp add: total_orders_of_def series_sum_def example_master_def)
  have cnt: "length (filter (\<lambda>r. was_refunded r = Some 1) example_master) = 1"
    by (simp add: example_master_def)
  have le: "of_nat (length (filter (\<lambda>r. was_refunded r = Some 1) example_master))
      \<le> total_orders_of example_master"
    by (simp add: tot cnt)
  from refund_rate_is_bounded_ratio [of initial_state example_master] flags le
  obtain q where q: "quality_metrics example_master = Inr q"
      "overall_refund_rate q =
         (if 0 < total_orders_of example_master
          then NpFloat (Fin (refunded_orders_of example_master / total_orders_of example_master))
          else PyInt 0)"
      "refunded_orders_of example_master =
         of_nat (length (filter (\<lambda>r. was_refunded r = Some 1) example_master))"
      "in_unit_interval (overall_refund_rate q)"
    by blast
  have r1: "refunded_orders_of example_master = 1"
    using q(3) cnt by simp
  have "overall_refund_rate q = NpFloat (Fin (1 / 2))"
    using q(2) tot r1 by simp
  with q tot r1 show ?thesis
    by blast
qed

subsection \<open>The cleaners\<close>

lemma merge_left_matched:
  "(l, Some r) \<in> set (merge_left lkey rkey left right) \<Longrightarrow>
     l \<in> set left \<and> r \<in> set right \<and> rkey r = lkey l"
proof -
  assume "(l, Some r) \<in> set (merge_left lkey rkey left right)"
  then obtain l' where l': "l' \<in> set left"
    and mem: "(l, Some r) \<in> set (case filter (\<lambda>r. rkey r = lkey l') right of
                                    [] \<Rightarrow> [(l', None)] | ms \<Rightarrow> map (\<lambda>r. (l', Some r)) ms)"
    by (auto simp: merge_left_def)
  show ?thesis
  proof (cases "filter (\<lambda>r. rkey r = lkey l') right")
    case Nil
    with mem show ?thesis by simp
  next
    case (Cons m ms)
    with mem have "l = l'" and "r \<in> set (filter (\<lambda>r. rkey r = lkey l') right)"
      by auto
    with l' show ?thesis by simp
  qed
qed

lemma length_merge_left: "length left \<le> length (merge_left lkey rkey left right)"
proof (induction left)
  case Nil
  then show ?case by (simp add: merge_left_def)
next
  case (Cons l ls)
  have "1 \<le> length (case filter (\<lambda>r. rkey r = lkey l) right of
                       [] \<Rightarrow> [(l, None)] | ms \<Rightarrow> map (\<lambda>r. (l, Some r)) ms)"
    by (simp split: list.splits)
  with Cons show ?case by (simp add: merge_left_def)
qed

lemma date_ge_Some: "date_ge a b \<Longrightarrow> \<exists>x y. a = Some x \<and> b = Some y \<and> y \<le> x"
  by (auto simp: date_ge_def split: option.splits)

lemma to_datetime_total: "Garbled \<notin> set col \<Longrightarrow> \<exists>ds. to_datetime col = Inr ds"
  by (simp add: to_datetime_def)

lemma clean_refunds_returns:
  "Garbled \<notin> set (map raw_refund_date df_refunds) \<Longrightarrow>
     \<exists>out rep. clean_refunds self df_refunds df_orders = Inr (out, rep)"
  by (simp add: clean_refunds_def to_datetime_def Let_def)

lemma clean_refunds_rows:
  fixes df_orders :: "'a order_row_scheme list"
  assumes "clean_refunds self df_refunds df_orders = Inr (out, rep)" and "r \<in> set out"
  shows "\<exists>rd od. refund_date r = Some rd \<and> refund_order_date r = Some od \<and> od \<le> rd
           \<and> (\<exists>ord \<in> set df_orders. order_id ord = refund_order_id r \<and> order_date ord = Some od)"
proof -
  from assms(1) obtain dates where dates: "to_datetime (map raw_refund_date df_refunds) = Inr dates"
    by (auto simp: clean_refunds_def split: sum.splits)
  define merged where "merged = merge_left (\<lambda>(r, d). raw_refund_order_id r) order_id (zip df_refunds dates) df_orders"
  define build :: "(refund_raw \<times> int option) \<times> 'a order_row_scheme option \<Rightarrow> refund_clean"
    where "build = (\<lambda>((r, d), m).
                       \<lparr>refund_id = raw_refund_id r,
                        refund_order_id = raw_refund_order_id r,
                        refund_date = d,
                        reason = raw_reason r,
                        refund_order_date = (case m of None \<Rightarrow> None | Some ord \<Rightarrow> order_date ord),
                        days_to_refund = (None :: int option)\<rparr>)"
  define days :: "refund_clean \<Rightarrow> refund_clean"
    where "days = (\<lambda>r. r\<lparr>days_to_refund :=
                              (case (refund_date r, refund_order_date r) of
                                 (Some x, Some y) \<Rightarrow> Some ((x - y) div ns_per_day)
                               | _ \<Rightarrow> None)\<rparr>)"
  have out: "out = map days (filter (\<lambda>r. date_ge (refund_date r) (refund_order_date r)) (map build merged))"
    using assms(1) dates by (simp add: clean_refunds_def Let_def merged_def build_def days_def)
  with assms(2) obtain r' where r': "r = days r'" "r' \<in> set (map build merged)"
      "date_ge (refund_date r') (refund_order_date r')"
    by auto
  from r'(2) obtain raw d m where m: "((raw, d), m) \<in> set merged" "r' = build ((raw, d), m)"
    by auto
  from r'(3) obtain rd od where ge: "refund_date r' = Some rd" "refund_order_date r' = Some od" "od \<le> rd"
    using date_ge_Some by blast
  from ge(2) m(2) obtain ord where ord: "m = Some ord" "order_date ord = Some od"
    by (auto simp: build_def split: option.splits)
  from m(1) ord(1) have "ord \<in> set df_orders" "order_id ord = raw_refund_order_id raw"
    using merge_left_matched [of "(raw, d)" ord "\<lambda>(r, d). raw_refund_order_id r" order_id "zip df_refunds dates" df_orders]
    by (auto simp: merged_def)
  moreover have "refund_order_id r = raw_refund_order_id raw" "refund_date r = Some rd" "refund_order_date r = Some od"
    using r'(1) m(2) ge by (auto simp: days_def build_def)
  ultimately show ?thesis using ord(2) ge(3) by auto
qed

lemma example_orders_cleaned:
  "clean_orders empty_report example_orders_raw example_sessions =
     Inr ([\<lparr>order_id = Some ''o1'', order_session_id = Some ''s1'', order_date = Some 150,
             order_value = Some 50\<rparr>],
          empty_report\<lparr>orders_removed := Some 2\<rparr>)"
  by code_simp

lemma example_refunds_cleaned:
  "clean_refunds empty_report example_refunds_raw example_orders =
     Inr ([\<lparr>refund_id = Some ''r1'', refund_order_id = Some ''o1'',
             refund_date = Some (150 + 2 * ns_per_day), reason = Some ''Damaged'',
             refund_order_date = Some 150, days_to_refund = Some 2\<rparr>],
          empty_report\<lparr>refunds_removed := Some 1\<rparr>)"
  by code_simp

lemma enumerate_label_bound: "(l, x) \<in> set (enumerate n xs) \<Longrightarrow> l < n + length xs"
  by (auto simp: in_set_enumerate_eq)

lemma clean_orders_rows:
  assumes "clean_orders self df_orders df_sessions = Inr (out, rep)" and "r \<in> set out"
  shows "\<exists>v. order_value r = Some v \<and> 0 < v
           \<and> (\<exists>row \<in> set df_orders. raw_order_id row = order_id r \<and> raw_order_value row = Val v)"
proof -
  define labelled where "labelled = filter (\<lambda>(l, row). raw_order_id row \<noteq> None) (enumerate 0 df_orders)"
  define dated where "dated = map (\<lambda>(l, row). (l, row, coerce (raw_order_date row))) labelled"
  define build :: "nat \<times> order_raw \<times> int option \<Rightarrow> order_row"
    where "build = (\<lambda>(l, row, d).
                                \<lparr>order_id = raw_order_id row,
                                 order_session_id = raw_order_session_id row,
                                 order_date = d,
                                 order_value = coerce (raw_order_value row)\<rparr>)"
  define mask where "mask = map (\<lambda>((l, row, d), m). date_lt d (case m of None \<Rightarrow> None | Some s \<Rightarrow> session_date s))
                     (merge_left (\<lambda>(l, row, d). raw_order_session_id row) session_id dated df_sessions)"
  define kept where "kept = filter (\<lambda>(l, row, d). \<not> mask ! l) dated"
  have kept: "set kept \<subseteq> set dated"
    by (auto simp: kept_def)
  have out: "out = filter (\<lambda>r. case order_value r of None \<Rightarrow> False | Some v \<Rightarrow> 0 < v) (map build kept)"
    using assms(1)
    unfolding clean_orders_def Let_def labelled_def [symmetric] dated_def [symmetric]
      mask_def [symmetric] kept_def [symmetric] build_def [symmetric]
    by (simp split: if_splits)
  from assms(2) out obtain k where k: "k \<in> set kept" "r = build k"
      "case order_value r of None \<Rightarrow> False | Some v \<Rightarrow> 0 < v"
    by auto
  from k(3) obtain v where v: "order_value r = Some v" "0 < v"
    by (auto split: option.splits)
  obtain l row d where lrd: "k = (l, row, d)"
    by (cases k) auto
  from k(1) kept lrd have "(l, row) \<in> set labelled"
    by (auto simp: dated_def)
  then have "row \<in> set df_orders"
    by (auto simp: labelled_def in_set_enumerate_eq)
  moreover from k(2) lrd v(1) have "raw_order_id row = order_id r" "raw_order_value row = Val v"
    by (auto simp: build_def elim: coerce.elims)
  ultimately show ?thesis using v by blast
qed

lemma clean_orders_returns:
  assumes "\<forall>row \<in> set df_orders. raw_order_id row \<noteq> None"
  shows "\<exists>out rep. clean_orders self df_orders df_sessions = Inr (out, rep)"
proof -
  define labelled where "labelled = filter (\<lambda>(l, row). raw_order_id row \<noteq> None) (enumerate 0 df_orders)"
  define dated where "dated = map (\<lambda>(l, row). (l, row, coerce (raw_order_date row))) labelled"
  define merged where "merged = merge_left (\<lambda>(l, row, d). raw_order_session_id row) session_id dated df_sessions"
  have all: "labelled = enumerate 0 df_orders"
    using assms by (auto simp: labelled_def in_set_enumerate_eq intro!: filter_True)
  then have len: "length dated = length df_orders"
    by (simp add: dated_def)
  have "length dated \<le> length merged"
    unfolding merged_def by (rule length_merge_left)
  with len have ge: "length df_orders \<le> length merged"
    by simp
  have "\<not> list_ex (\<lambda>(l, row, d). length merged \<le> l) dated"
  proof
    assume "list_ex (\<lambda>(l, row, d). length merged \<le> l) dated"
    then obtain l row d where "(l, row, d) \<in> set dated" "length merged \<le> l"
      by (auto simp: list_ex_iff)
    then have "(l, row) \<in> set (enumerate 0 df_orders)" "length merged \<le> l"
      using all by (auto simp: dated_def)
    then have "l < length df_orders" "length merged \<le> l"
      by (auto simp: in_set_enumerate_eq)
    with ge show False by simp
  qed
  then show ?thesis
    by (simp add: clean_orders_def Let_def labelled_def dated_def merged_def)
qed

text \<open>
  C7. \<open>clean_refunds\<close> returns whenever every refund date can be read, and in every
  table it returns each remaining refund has a refund date and the order date of an
  order of the orders table with the same \<open>order_id\<close>, and the refund date is not
  before that order date. Refunds lacking any of this are not in the result.
\<close>

theorem clean_refunds_dates_ordered:
  "(Garbled \<notin> set (map raw_refund_date df_refunds) \<longrightarrow>
      (\<exists>out rep. clean_refunds self df_refunds df_orders = Inr (out, rep)))
   \<and> (clean_refunds self df_refunds df_orders = Inr (out, rep) \<longrightarrow>
        (\<forall>r \<in> set out. \<exists>rd od.
            refund_date r = Some rd \<and> refund_order_date r = Some od \<and> od \<le> rd
            \<and> (\<exists>ord \<in> set df_orders. order_id ord = refund_order_id r \<and> order_date ord = Some od)))"
  using clean_refunds_returns clean_refunds_rows by blast

text \<open>
  Four refunds: one two days after its order (kept), one before its order, one for an
  unknown order and one without a date (all three removed; the report counts the first
  of them only).
\<close>

theorem clean_refunds_dates_ordered_witness:
  "\<exists>out rep. clean_refunds empty_report example_refunds_raw example_orders = Inr (out, rep)
     \<and> map refund_id out = [Some ''r1'']
     \<and> refunds_removed rep = Some 1
     \<and> (\<forall>r \<in> set out. \<exists>rd od. refund_date r = Some rd \<and> refund_order_date r = Some od \<and> od \<le> rd)"
proof -
  have dates: "Garbled \<notin> set (map raw_refund_date example_refunds_raw)"
    by (simp add: example_refunds_raw_def)
  note inst = clean_refunds_dates_ordered [of example_refunds_raw empty_report example_orders]
  from inst dates obtain out rep
    where run: "clean_refunds empty_report example_refunds_raw example_orders = Inr (out, rep)"
    by blast
  with inst have ord: "\<forall>r \<in> set out. \<exists>rd od. refund_date r = Some rd \<and> refund_order_date r = Some od \<and> od \<le> rd"
    by blast
  from run example_refunds_cleaned have vals: "map refund_id out = [Some ''r1'']"
      "refunds_removed rep = Some 1"
    by auto
  show ?thesis
  proof (intro exI conjI)
    show "clean_refunds empty_report example_refunds_raw example_orders = Inr (out, rep)"
      by (rule run)
  qed (use vals ord in simp_all)
qed

text \<open>
  C10. \<open>clean_orders\<close> returns whenever no order lacks its \<open>order_id\<close>, and in every
  table it returns each remaining order has a numeric \<open>order_value\<close> that is strictly
  positive, the value of an order of the input with the same id. Orders whose value is
  zero, negative or not a number are therefore not in the result.
\<close>

theorem clean_orders_values_positive:
  "((\<forall>row \<in> set df_orders. raw_order_id row \<noteq> None) \<longrightarrow>
      (\<exists>out rep. clean_orders self df_orders df_sessions = Inr (out, rep)))
   \<and> (clean_orders self df_orders df_sessions = Inr (out, rep) \<longrightarrow>
        (\<forall>r \<in> set out. \<exists>v.
            order_value r = Some v \<and> 0 < v
            \<and> (\<exists>row \<in> set df_orders. raw_order_id row = order_id r \<and> raw_order_value row = Val v)))"
  using clean_orders_returns clean_orders_rows by blast

text \<open>
  Five orders with the values 50, 0, unreadable, -5 and 20 (the last one dated before
  its session). Only the first remains: four rows are removed, of which the report
  counts two, the wrongly dated one and the negative one.
\<close>

theorem clean_orders_values_positive_witness:
  "\<exists>out rep. clean_orders empty_report example_orders_raw example_sessions = Inr (out, rep)
     \<and> map order_id out = [Some ''o1'']
     \<and> orders_removed rep = Some 2
     \<and> length example_orders_raw - length out = 4
     \<and> (\<forall>r \<in> set out. \<exists>v. order_value r = Some v \<and> 0 < v)"
proof -
  have ids: "\<forall>row \<in> set example_orders_raw. raw_order_id row \<noteq> None"
    by (simp add: example_orders_raw_def)
  note inst = clean_orders_values_positive [of example_orders_raw empty_report example_sessions]
  from inst ids obtain out rep
    where run: "clean_orders empty_report example_orders_raw example_sessions = Inr (out, rep)"
    by blast
  with inst have pos: "\<forall>r \<in> set out. \<exists>v. order_value r = Some v \<and> 0 < v"
    by blast
  from run example_orders_cleaned have res: "out =
      [\<lparr>order_id = Some ''o1'', order_session_id = Some ''s1'', order_date = Some 150,
        order_value = Some 50\<rparr>]" "rep = empty_report\<lparr>orders_removed := Some 2\<rparr>"
    by simp_all
  have len: "length example_orders_raw = 5"
    by (simp add: example_orders_raw_def)
  from res len have vals: "map order_id out = [Some ''o1'']" "orders_removed rep = Some 2"
      "length example_orders_raw - length out = 4"
    by simp_all
  show ?thesis
  proof (intro exI conjI)
    show "clean_orders empty_report example_orders_raw example_sessions = Inr (out, rep)"
      by (rule run)
  qed (use vals pos in simp_all)
qed

subsection \<open>The API service\<close>

lemma get_rejected:
  "fetch w dashboard_url = Rejects e \<Longrightarrow> getDashboardData w s = (Inl e, after_failure s e)"
  by (simp add: getDashboardData_def try_body_def Let_def dashboard_url_def after_failure_def failure_line_def)

lemma get_not_ok_unreadable:
  "fetch w dashboard_url = Resolves resp \<Longrightarrow> \<not> ok resp \<Longrightarrow> body_text resp = Inl e \<Longrightarrow>
     getDashboardData w s = (Inl e, after_failure s e)"
  by (simp add: getDashboardData_def try_body_def Let_def dashboard_url_def after_failure_def failure_line_def)

lemma get_not_ok_readable:
  "fetch w dashboard_url = Resolves resp \<Longrightarrow> \<not> ok resp \<Longrightarrow> body_text resp = Inr txt \<Longrightarrow>
     getDashboardData w s = (Inl (http_error (status resp)), after_failure s (http_error (status resp)))"
  by (simp add: getDashboardData_def try_body_def Let_def dashboard_url_def after_failure_def
        failure_line_def inner_catch_def)

lemma get_requests:
  "requests (snd (getDashboardData w s)) = requests s @ [dashboard_url]"
  by (auto simp: getDashboardData_def try_body_def Let_def dashboard_url_def
           split: fetch_result.splits sum.splits prod.splits)

lemma get_error_logged:
  "fst (getDashboardData w s) = Inl e \<Longrightarrow> snd (getDashboardData w s) = after_failure s e"
  by (auto simp: getDashboardData_def try_body_def Let_def dashboard_url_def after_failure_def
           failure_line_def split: fetch_result.splits sum.splits prod.splits if_splits)

lemma get_data_silent:
  "fst (getDashboardData w s) = Inr d \<Longrightarrow>
     snd (getDashboardData w s) = s\<lparr>requests := requests s @ [dashboard_url]\<rparr>
     \<and> (\<exists>resp. fetch w dashboard_url = Resolves resp \<and> ok resp \<and> response_json w resp = Inr d)"
  by (auto simp: getDashboardData_def try_body_def Let_def dashboard_url_def
           split: fetch_result.splits sum.splits prod.splits if_splits)

lemma digits_500: "digits 500 = ''500''"
  by code_simp

lemma digits_502: "digits 502 = ''502''"
  by code_simp

text \<open>
  C2. When \<open>fetch\<close> rejects, \<open>getDashboardData\<close> rejects with the same error after
  logging it; when the response is not ok, it rejects with an error that it has logged.
  In every case there is exactly one request per call, an error that reaches the caller
  has been logged once, and data is returned only from an ok response, as the parsed
  body: nothing is retried and no result is made up.
\<close>

theorem fetch_failure_logged_and_rethrown:
  "(fetch w dashboard_url = Rejects e \<longrightarrow> getDashboardData w s = (Inl e, after_failure s e))
   \<and> (fetch w dashboard_url = Resolves resp \<and> \<not> ok resp \<longrightarrow>
         (\<exists>e'. getDashboardData w s = (Inl e', after_failure s e')))
   \<and> requests (snd (getDashboardData w s)) = requests s @ [dashboard_url]
   \<and> (fst (getDashboardData w s) = Inl err \<longrightarrow> snd (getDashboardData w s) = after_failure s err)
   \<and> (fst (getDashboardData w s) = Inr d \<longrightarrow>
         (\<exists>r. fetch w dashboard_url = Resolves r \<and> ok r \<and> response_json w r = Inr d))"
proof -
  have "fetch w dashboard_url = Resolves resp \<and> \<not> ok resp \<longrightarrow>
         (\<exists>e'. getDashboardData w s = (Inl e', after_failure s e'))"
  proof (intro impI, elim conjE)
    assume f: "fetch w dashboard_url = Resolves resp" and n: "\<not> ok resp"
    show "\<exists>e'. getDashboardData w s = (Inl e', after_failure s e')"
    proof (cases "body_text resp")
      case (Inl e)
      with f n show ?thesis using get_not_ok_unreadable by blast
    next
      case (Inr b)
      with f n show ?thesis using get_not_ok_readable by blast
    qed
  qed
  then show ?thesis
    using get_rejected get_requests get_error_logged get_data_silent by blast
qed

text \<open>A network that is down, and a server that answers 500.\<close>

theorem fetch_failure_logged_and_rethrown_witness:
  "getDashboardData world_down no_io =
     (Inl (TypeError ''Failed to fetch''),
      \<lparr>requests = [''https://bearcart.onrender.com/api/dashboard''],
       console_error = [(''Failed to fetch dashboard data:'', TypeError ''Failed to fetch'')]\<rparr>)
   \<and> (\<exists>e'. getDashboardData world_500 no_io = (Inl e', after_failure no_io e'))
   \<and> requests (snd (getDashboardData world_500 no_io)) = [''https://bearcart.onrender.com/api/dashboard'']"
proof -
  have down: "fetch world_down dashboard_url = Rejects (TypeError ''Failed to fetch'')"
    by (simp add: world_down_def)
  have r500: "fetch world_500 dashboard_url = Resolves response_500 \<and> \<not> ok response_500"
    by (simp add: world_500_def response_500_def)
  note a = fetch_failure_logged_and_rethrown
             [of world_down "TypeError ''Failed to fetch''" no_io response_500 "TypeError ''Failed to fetch''" JNull]
  note b = fetch_failure_logged_and_rethrown
             [of world_500 "TypeError ''Failed to fetch''" no_io response_500 "TypeError ''Failed to fetch''" JNull]
  from a down have "getDashboardData world_down no_io =
      (Inl (TypeError ''Failed to fetch''), after_failure no_io (TypeError ''Failed to fetch''))"
    by blast
  then have c1: "getDashboardData world_down no_io =
     (Inl (TypeError ''Failed to fetch''),
      \<lparr>requests = [''https://bearcart.onrender.com/api/dashboard''],
       console_error = [(''Failed to fetch dashboard data:'', TypeError ''Failed to fetch'')]\<rparr>)"
    by (simp add: after_failure_def no_io_def dashboard_url_def BASE_URL_def failure_line_def)
  from b r500 have c2: "\<exists>e'. getDashboardData world_500 no_io = (Inl e', after_failure no_io e')"
    by blast
  from b have "requests (snd (getDashboardData world_500 no_io)) = requests no_io @ [dashboard_url]"
    by blast
  then have c3: "requests (snd (getDashboardData world_500 no_io)) =
      [''https://bearcart.onrender.com/api/dashboard'']"
    by (simp add: no_io_def dashboard_url_def BASE_URL_def)
  from c1 c2 c3 show ?thesis by blast
qed

text \<open>
  C8, as amended. For every response that is not ok and whose body can be read,
  \<open>getDashboardData\<close> rejects with an \<open>Error\<close> whose message is exactly
  "HTTP error! status: " followed by the status in decimal: whatever the inner \<open>try\<close>
  throws, the message built from \<open>json.detail\<close> included, the handler replaces it.
\<close>

theorem not_ok_readable_body_generic_error:
  "fetch w dashboard_url = Resolves resp \<and> \<not> ok resp \<and> body_text resp = Inr txt \<longrightarrow>
     fst (getDashboardData w s) = Inl (Error (Str (''HTTP error! status: '' @ digits (status resp))))
     \<and> read_nat (digits (status resp)) = status resp
     \<and> inner_catch resp (inner_try w resp txt) = http_error (status resp)"
  by (auto simp: get_not_ok_readable http_error_def inner_catch_def read_nat_digits)

text \<open>
  A 500 response whose body carries a \<open>detail\<close>: the inner block throws an error with
  that detail, the caller sees the status message.
\<close>

theorem not_ok_readable_body_generic_error_witness:
  "inner_try world_500 response_500 example_body = Error (Str ''database unavailable'')
   \<and> fst (getDashboardData world_500 no_io) = Inl (Error (Str ''HTTP error! status: 500''))"
proof -
  have pre: "fetch world_500 dashboard_url = Resolves response_500 \<and> \<not> ok response_500
      \<and> body_text response_500 = Inr example_body"
    by (simp add: world_500_def response_500_def)
  have thrown: "inner_try world_500 response_500 example_body = Error (Str ''database unavailable'')"
    by (simp add: inner_try_def world_500_def example_parse_def detail_of_def js_truthy_def
          message_of_def)
  from not_ok_readable_body_generic_error [of world_500 response_500 example_body no_io] pre
  have "fst (getDashboardData world_500 no_io) =
      Inl (Error (Str (''HTTP error! status: '' @ digits (status response_500))))"
    by blast
  then have "fst (getDashboardData world_500 no_io) = Inl (Error (Str ''HTTP error! status: 500''))"
    by (simp add: response_500_def digits_500)
  with thrown show ?thesis by blast
qed

text \<open>
  A 502 response whose body cannot be read: \<open>response.text()\<close> rejects outside the
  inner \<open>try\<close>, and the caller sees that error, not the status message.
\<close>

theorem unreadable_body_counterexample:
  "fetch world_502 dashboard_url = Resolves response_502
   \<and> \<not> ok response_502
   \<and> status response_502 = 502
   \<and> fst (getDashboardData world_502 no_io) = Inl (TypeError ''network error'')
   \<and> fst (getDashboardData world_502 no_io) \<noteq> Inl (Error (Str ''HTTP error! status: 502''))"
proof -
  have f: "fetch world_502 dashboard_url = Resolves response_502" "\<not> ok response_502"
      "body_text response_502 = Inl (TypeError ''network error'')" "status response_502 = 502"
    by (simp_all add: world_502_def response_502_def)
  from f(1,2,3) have "getDashboardData world_502 no_io =
      (Inl (TypeError ''network error''), after_failure no_io (TypeError ''network error''))"
    by (rule get_not_ok_unreadable)
  with f show ?thesis by simp
qed

end
